theory Spec2Isabelle
  imports Main
begin

section \<open>The icon generator \<^verbatim>\<open>create_icons.py\<close>\<close>

text \<open>
  The script draws a two-glyph label on a square canvas of a fixed background colour,
  once for each of three sizes, and saves each canvas as a PNG file. It consists of an
  import guard, the function \<^verbatim>\<open>create_icon(size)\<close> and a driver loop.

  The script is glue over Pillow and the operating system. Their operations are
  modelled by what the script relies on: what varies with the installation (which fonts
  load, whether and how a font measures and rasterises a text) is a parameter, the
  record \<open>pil\<close>; what the library fixes (a new canvas, how a bounding box moves with its
  anchor, how a glyph mask is pasted) is a definition.
\<close>

subsection \<open>Strings\<close>

text \<open>
  A Python \<^verbatim>\<open>str\<close> is a sequence of Unicode code points. The script's literals hold
  Hangul syllables and a check mark, so a string is a list of code points, and
  \<open>asc\<close> reads an ASCII literal.
\<close>

type_synonym ustr = "nat list"

definition asc :: "string \<Rightarrow> ustr" where
  "asc s = map of_char s"

text \<open>\<^verbatim>\<open>str(n)\<close> for an integer, as the f-string \<^verbatim>\<open>{size}\<close> formats it.\<close>

fun str_nat :: "nat \<Rightarrow> ustr" where
  "str_nat n = (if n < 10 then [48 + n] else str_nat (n div 10) @ [48 + n mod 10])"

declare str_nat.simps [simp del]

definition str_int :: "int \<Rightarrow> ustr" where
  "str_int i = (if i < 0 then 45 # str_nat (nat (- i)) else str_nat (nat i))"

text \<open>
  The lines of a text written to standard output: every newline (code point 10) ends a
  line, as \<^verbatim>\<open>str.splitlines\<close> counts them.
\<close>

fun lines_from :: "ustr \<Rightarrow> ustr \<Rightarrow> ustr list" where
  "lines_from cur [] = (if cur = [] then [] else [cur])"
| "lines_from cur (c # cs) =
     (if c = 10 then cur # lines_from [] cs else lines_from (cur @ [c]) cs)"

definition splitlines :: "ustr \<Rightarrow> ustr list" where
  "splitlines s = lines_from [] s"

subsection \<open>The product \<^verbatim>\<open>size * 0.4\<close> in double precision\<close>

text \<open>
  \<^verbatim>\<open>int(size * 0.4)\<close> converts \<^verbatim>\<open>size\<close> to a double, multiplies by the double
  nearest to 0.4, and truncates towards zero. A finite double is a dyadic rational:
  the pair \<open>(m, e)\<close> stands for \<open>m / 2 ^ e\<close>. Every operation rounds its exact result
  to 53 significant bits, ties to even. The exponent range of a double is not modelled:
  a magnitude of \<open>2 ^ 1024\<close> or more (where Python raises \<^verbatim>\<open>OverflowError\<close>) is beyond
  any canvas the library allocates.
\<close>

function bit_length :: "int \<Rightarrow> nat" where
  "bit_length n = (if n \<le> 0 then 0 else Suc (bit_length (n div 2)))"
  by pat_completeness auto
termination
  by (relation "measure nat") auto

declare bit_length.simps [simp del]

definition round53 :: "int \<Rightarrow> int" where
  "round53 n =
     (let k = bit_length n - 53; q = n div 2 ^ k; r = n mod 2 ^ k
      in if 2 * r > 2 ^ k \<or> (2 * r = 2 ^ k \<and> odd q) then (q + 1) * 2 ^ k else q * 2 ^ k)"

type_synonym double = "int \<times> nat"

definition float_of_int :: "int \<Rightarrow> double" where
  "float_of_int n = (sgn n * round53 \<bar>n\<bar>, 0)"

fun fmul :: "double \<Rightarrow> double \<Rightarrow> double" where
  "fmul (m1, e1) (m2, e2) = (sgn (m1 * m2) * round53 \<bar>m1 * m2\<bar>, e1 + e2)"

text \<open>\<^verbatim>\<open>int(x)\<close> truncates towards zero; \<open>floor_of_float\<close> is the mathematical floor.\<close>

fun int_of_float :: "double \<Rightarrow> int" where
  "int_of_float (m, e) = sgn m * (\<bar>m\<bar> div 2 ^ e)"

fun floor_of_float :: "double \<Rightarrow> int" where
  "floor_of_float (m, e) = m div 2 ^ e"

text \<open>The literal \<^verbatim>\<open>0.4\<close>: the double \<open>3602879701896397 / 2 ^ 53\<close>.\<close>

definition point_four :: double where
  "point_four = (3602879701896397, 53)"

text \<open>\<^verbatim>\<open>font_size = int(size * 0.4)\<close>\<close>

definition font_size :: "int \<Rightarrow> int" where
  "font_size sz = int_of_float (fmul (float_of_int sz) point_four)"

subsection \<open>Exceptions\<close>

text \<open>
  The exceptions that the library and the file system raise here, and
  \<^verbatim>\<open>KeyboardInterrupt\<close>, which is not an \<^verbatim>\<open>Exception\<close> and which a bare
  \<^verbatim>\<open>except:\<close> catches all the same. \<^verbatim>\<open>UnicodeEncodeError\<close> is what the
  library's built-in bitmap font raises on a text it cannot encode.
\<close>

datatype exn =
    OSError
  | ValueError
  | UnicodeEncodeError
  | KeyboardInterrupt
  | FileExistsError
  | FileNotFoundError
  | NotADirectoryError
  | IsADirectoryError

subsection \<open>Images\<close>

text \<open>
  A colour is its three 8-bit channels. \<^verbatim>\<open>'#4A90E2'\<close> and \<^verbatim>\<open>'white'\<close> are the two
  colour specifiers of the script, as \<^verbatim>\<open>ImageColor.getrgb\<close> reads them.
\<close>

type_synonym rgb = "nat \<times> nat \<times> nat"

definition background :: rgb where
  "background = (0x4A, 0x90, 0xE2)"

definition white :: rgb where
  "white = (255, 255, 255)"

text \<open>
  An image has a mode, a width, a height, and a pixel at every position inside the
  canvas; \<open>getpixel\<close> is \<open>None\<close> outside it.
\<close>

record image =
  mode :: ustr
  width :: int
  height :: int
  getpixel :: "int \<times> int \<Rightarrow> rgb option"

text \<open>
  \<^verbatim>\<open>Image.new(mode, size, color)\<close>: a canvas filled with one colour. The library
  refuses a negative side with \<^verbatim>\<open>ValueError\<close>.
\<close>

fun Image_new :: "ustr \<Rightarrow> int \<times> int \<Rightarrow> rgb \<Rightarrow> exn + image" where
  "Image_new m (w, h) color =
     (if w < 0 \<or> h < 0 then Inl ValueError
      else Inr \<lparr>mode = m, width = w, height = h,
                getpixel = (\<lambda>(i, j). if 0 \<le> i \<and> i < w \<and> 0 \<le> j \<and> j < h
                                       then Some color else None)\<rparr>)"

subsection \<open>Fonts and text\<close>

text \<open>
  What the installation decides. \<open>truetype path size\<close> loads a font file at a pixel size
  or raises; \<open>load_default\<close> is the built-in font, obtained without any argument. A font
  may be unable to handle a text: \<open>getbbox font text\<close> is the box
  \<open>(left, top, right, bottom)\<close> of the text's ink relative to the drawing anchor, or the
  exception the font raises when asked to measure the text; \<open>getmask font text\<close> is the
  coverage (0 to 255) of the text's ink at every offset from the anchor, or the exception
  the font raises when asked to rasterise the text.
\<close>

record 'f pil =
  truetype :: "ustr \<Rightarrow> int \<Rightarrow> exn + 'f"
  load_default :: "'f"
  getbbox :: "'f \<Rightarrow> ustr \<Rightarrow> exn + int \<times> int \<times> int \<times> int"
  getmask :: "'f \<Rightarrow> ustr \<Rightarrow> exn + (int \<times> int \<Rightarrow> nat)"

text \<open>
  \<^verbatim>\<open>draw.textbbox(xy, text, font=font)\<close>: the box the ink of the text occupies when
  the text is drawn at \<open>xy\<close>, which is the font's box moved by \<open>xy\<close>. It raises what
  the font raises.
\<close>

fun textbbox :: "'f pil \<Rightarrow> int \<times> int \<Rightarrow> ustr \<Rightarrow> 'f \<Rightarrow> exn + int \<times> int \<times> int \<times> int" where
  "textbbox env (x, y) text font =
     (case getbbox env font text of
        Inl e \<Rightarrow> Inl e
      | Inr (l, t, r, b) \<Rightarrow> Inr (x + l, y + t, x + r, y + b))"

text \<open>
  Pasting ink through an 8-bit mask: each channel moves from the old value \<open>a\<close> to the
  ink \<open>b\<close> in proportion to the coverage \<open>m\<close>, with the library's rounded division
  by 255.
\<close>

definition blend8 :: "nat \<Rightarrow> nat \<Rightarrow> nat \<Rightarrow> nat" where
  "blend8 m a b = (let t = a * (255 - m) + b * m + 128 in (t div 256 + t) div 256)"

fun blend :: "nat \<Rightarrow> rgb \<Rightarrow> rgb \<Rightarrow> rgb" where
  "blend m (r1, g1, b1) (r2, g2, b2) = (blend8 m r1 r2, blend8 m g1 g2, blend8 m b1 b2)"

text \<open>
  \<^verbatim>\<open>draw.text(xy, text, fill=fill, font=font)\<close> changes the image in place: every pixel
  of the canvas is blended with the fill colour by the coverage of the text's mask at
  that pixel's offset from \<open>xy\<close>. Ink that falls outside the canvas is lost; the mode
  and the dimensions stay. It raises what the font raises, and then draws nothing.
\<close>

fun draw_text :: "'f pil \<Rightarrow> image \<Rightarrow> int \<times> int \<Rightarrow> ustr \<Rightarrow> rgb \<Rightarrow> 'f \<Rightarrow> exn + image" where
  "draw_text env img (x, y) text fill font =
     (case getmask env font text of
        Inl e \<Rightarrow> Inl e
      | Inr m \<Rightarrow>
          Inr (img\<lparr>getpixel := (\<lambda>(i, j). case getpixel img (i, j) of
                                          None \<Rightarrow> None
                                        | Some c \<Rightarrow> Some (blend (m (i - x, j - y)) c fill))\<rparr>))"

subsection \<open>\<^verbatim>\<open>create_icon\<close>\<close>

text \<open>The label: the Latin letter A (U+0041) and the Hangul syllable U+D55C.\<close>

definition label :: ustr where
  "label = [0x41, 0xD55C]"

definition arial :: ustr where
  "arial = asc ''/System/Library/Fonts/Supplemental/Arial.ttf''"

text \<open>
  The function, line by line: the canvas; the font, which is the system font at
  \<open>font_size\<close>, or the default font when the load raises (the bare \<^verbatim>\<open>except:\<close>
  catches every exception, and the \<^verbatim>\<open>try\<close> holds nothing but the load); the box of
  the label measured at the anchor \<open>(0, 0)\<close>, its width and its height; the origin by
  floor division; the label drawn there in white. What measuring or drawing raises
  leaves the function.
\<close>

definition create_icon :: "'f pil \<Rightarrow> int \<Rightarrow> exn + image" where
  "create_icon env sz =
     (case Image_new (asc ''RGB'') (sz, sz) background of
        Inl e \<Rightarrow> Inl e
      | Inr img \<Rightarrow>
          (let font = (case truetype env arial (font_size sz) of
                         Inr f \<Rightarrow> f
                       | Inl e \<Rightarrow> load_default env);
               text = label
           in case textbbox env (0, 0) text font of
                Inl e \<Rightarrow> Inl e
              | Inr bbox \<Rightarrow>
                  (let text_width = (case bbox of (x0, y0, x1, y1) \<Rightarrow> x1 - x0);
                       text_height = (case bbox of (x0, y0, x1, y1) \<Rightarrow> y1 - y0);
                       x = (sz - text_width) div 2;
                       y = (sz - text_height) div 2
                   in draw_text env img (x, y) text white font)))"

text \<open>The font the \<^verbatim>\<open>try\<close> block ends with, by name, for the statements below.\<close>

definition load_font :: "'f pil \<Rightarrow> int \<Rightarrow> 'f" where
  "load_font env sz =
     (case truetype env arial (font_size sz) of
        Inr font \<Rightarrow> font
      | Inl e \<Rightarrow> load_default env)"

subsection \<open>The file system and standard output\<close>

text \<open>
  The world the script runs in: the directories and the files that exist (a file is
  the image its PNG encodes), the text written to standard output, and a journal of the
  directories created and the files written, in order.
\<close>

datatype fs_event = Mkdir ustr | Write ustr

record world =
  dirs :: "ustr set"
  files :: "ustr \<rightharpoonup> image"
  stdout :: ustr
  journal :: "fs_event list"

definition print :: "world \<Rightarrow> ustr \<Rightarrow> world" where
  "print w s = w\<lparr>stdout := stdout w @ s @ [10]\<rparr>"

text \<open>
  The path and its ancestors, outermost first: for \<^verbatim>\<open>dist/icons\<close> these are
  \<^verbatim>\<open>dist\<close> and \<^verbatim>\<open>dist/icons\<close>. Paths are relative to the working directory.
\<close>

fun prefixes_from :: "ustr \<Rightarrow> ustr \<Rightarrow> ustr list" where
  "prefixes_from acc [] = (if acc = [] then [] else [acc])"
| "prefixes_from acc (c # cs) =
     (if c = 47 then (if acc = [] then [] else [acc]) @ prefixes_from (acc @ [c]) cs
      else prefixes_from (acc @ [c]) cs)"

definition dirname :: "ustr \<Rightarrow> ustr" where
  "dirname p = rev (drop 1 (dropWhile (\<lambda>c. c \<noteq> 47) (rev p)))"

text \<open>
  \<^verbatim>\<open>os.makedirs(name, exist_ok=True)\<close>: every missing directory on the way is created;
  one that exists is left alone; a regular file in the way raises.
\<close>

fun mkdirs :: "world \<Rightarrow> ustr list \<Rightarrow> exn + world" where
  "mkdirs w [] = Inr w"
| "mkdirs w (d # ds) =
     (if d \<in> dom (files w) then Inl (if ds = [] then FileExistsError else NotADirectoryError)
      else if d \<in> dirs w then mkdirs w ds
      else mkdirs (w\<lparr>dirs := insert d (dirs w), journal := journal w @ [Mkdir d]\<rparr>) ds)"

definition makedirs :: "world \<Rightarrow> ustr \<Rightarrow> exn + world" where
  "makedirs w name = mkdirs w (prefixes_from [] name)"

text \<open>
  \<^verbatim>\<open>img.save(filename)\<close>: the file is created or replaced; the encoder follows from
  the extension, here always \<^verbatim>\<open>.png\<close>. The write raises when the path is a
  directory or its parent is not one.
\<close>

definition save :: "world \<Rightarrow> ustr \<Rightarrow> image \<Rightarrow> exn + world" where
  "save w filename img =
     (if filename \<in> dirs w then Inl IsADirectoryError
      else if dirname filename \<in> dom (files w) then Inl NotADirectoryError
      else if dirname filename \<noteq> [] \<and> dirname filename \<notin> dirs w then Inl FileNotFoundError
      else Inr (w\<lparr>files := (files w)(filename \<mapsto> img),
                  journal := journal w @ [Write filename]\<rparr>))"

subsection \<open>The driver\<close>

definition sizes :: "int list" where
  "sizes = [16, 48, 128]"

definition output_dir :: ustr where
  "output_dir = asc ''dist/icons''"

text \<open>\<^verbatim>\<open>f"{output_dir}/icon{size}.png"\<close>\<close>

definition filename :: "int \<Rightarrow> ustr" where
  "filename sz = output_dir @ asc ''/icon'' @ str_int sz @ asc ''.png''"

text \<open>
  The confirmation line: a check mark (U+2713), the file name, and a two-word Hangul
  note that the file was created.
\<close>

definition confirmation :: "ustr \<Rightarrow> ustr" where
  "confirmation name =
     [0x2713, 0x20] @ name @ [0x20, 0xC0DD, 0xC131, 0x20, 0xC644, 0xB8CC]"

text \<open>
  The two lines of the import guard: \<^verbatim>\<open>Pillow\<close> followed by the Hangul for
  "library is required.", and the Hangul for "install" followed by
  \<^verbatim>\<open>: pip install Pillow\<close>.
\<close>

definition need_pillow :: ustr where
  "need_pillow =
     asc ''Pillow '' @ [0xB77C, 0xC774, 0xBE0C, 0xB7EC, 0xB9AC, 0xAC00, 0x20,
                        0xD544, 0xC694, 0xD569, 0xB2C8, 0xB2E4, 0x2E]"

definition install_hint :: ustr where
  "install_hint = [0xC124, 0xCE58] @ asc '': pip install Pillow''"

text \<open>
  The two closing \<^verbatim>\<open>print\<close> calls. The first string starts with a newline and goes
  on with the Hangul for "all icons have been created!"; the second is the Hangul for
  "location", a colon, and the output directory with a slash.
\<close>

definition all_created :: ustr where
  "all_created =
     [10, 0xBAA8, 0xB4E0, 0x20, 0xC544, 0xC774, 0xCF58, 0xC774, 0x20,
      0xC0DD, 0xC131, 0xB418, 0xC5C8, 0xC2B5, 0xB2C8, 0xB2E4, 0x21]"

definition location :: ustr where
  "location = [0xC704, 0xCE58] @ asc '': '' @ output_dir @ asc ''/''"

text \<open>
  The \<^verbatim>\<open>for\<close> loop. An exception that nothing catches ends the loop; the world is
  then as the completed steps left it.
\<close>

fun render_all :: "'f pil \<Rightarrow> int list \<Rightarrow> world \<Rightarrow> world \<times> exn option" where
  "render_all env [] w = (w, None)"
| "render_all env (sz # rest) w =
     (case create_icon env sz of
        Inl e \<Rightarrow> (w, Some e)
      | Inr img \<Rightarrow>
          (case save w (filename sz) img of
             Inl e \<Rightarrow> (w, Some e)
           | Inr w' \<Rightarrow> render_all env rest (print w' (confirmation (filename sz)))))"

text \<open>
  How the process ends: \<^verbatim>\<open>exit(n)\<close> or the end of the script (status 0), or an
  uncaught exception, which the interpreter reports on standard error with status 1.
\<close>

datatype exit = Exit int | Uncaught exn

fun exit_status :: "exit \<Rightarrow> int" where
  "exit_status (Exit n) = n"
| "exit_status (Uncaught e) = 1"

text \<open>
  The whole script. \<open>lib\<close> is \<open>None\<close> when \<^verbatim>\<open>from PIL import ...\<close> raises
  \<^verbatim>\<open>ImportError\<close>.
\<close>

definition main :: "'f pil option \<Rightarrow> world \<Rightarrow> world \<times> exit" where
  "main lib w =
     (case lib of
        None \<Rightarrow> (print (print w need_pillow) install_hint, Exit 1)
      | Some env \<Rightarrow>
          (case makedirs w output_dir of
             Inl e \<Rightarrow> (w, Uncaught e)
           | Inr w1 \<Rightarrow>
               (case render_all env sizes w1 of
                  (w2, Some e) \<Rightarrow> (w2, Uncaught e)
                | (w2, None) \<Rightarrow> (print (print w2 all_created) location, Exit 0))))"

subsection \<open>Installations\<close>

text \<open>
  Concrete installations to run the script on; a font is the pixel size it was
  loaded at. On \<open>mac\<close> the system font loads, and a text measures from a quarter of the
  font size below the anchor. On \<open>linux\<close> no font file loads, and the default font (of
  size 10) measures every text as the box \<open>(0, 3, 11, 11)\<close>. Both rasterise a text as
  its solid box. On \<open>linux_bitmap\<close> no font file loads either, and the default font is the
  library's older bitmap font (the font 0), which raises on a text with a code point
  above 255.
\<close>

definition solid :: "int \<times> int \<times> int \<times> int \<Rightarrow> int \<times> int \<Rightarrow> nat" where
  "solid box p =
     (case (box, p) of ((l, t, r, b), (dx, dy)) \<Rightarrow>
        if l \<le> dx \<and> dx < r \<and> t \<le> dy \<and> dy < b then 255 else 0)"

definition mac :: "int pil" where
  "mac = \<lparr>truetype = (\<lambda>path pt. if path = arial then Inr pt else Inl OSError),
          load_default = 10,
          getbbox = (\<lambda>font text.
            Inr (0, font div 4, int (length text) * font div 2, font)),
          getmask = (\<lambda>font text.
            Inr (solid (0, font div 4, int (length text) * font div 2, font)))\<rparr>"

definition linux :: "int pil" where
  "linux = \<lparr>truetype = (\<lambda>path pt. Inl OSError),
            load_default = 10,
            getbbox = (\<lambda>font text. Inr (0, 3, 11, 11)),
            getmask = (\<lambda>font text. Inr (solid (0, 3, 11, 11)))\<rparr>"

definition linux_bitmap :: "int pil" where
  "linux_bitmap = \<lparr>truetype = (\<lambda>path pt. Inl OSError),
            load_default = 0,
            getbbox = (\<lambda>font text.
              if font = 0 \<and> \<not> list_all (\<lambda>c. c < 256) text then Inl UnicodeEncodeError
              else Inr (0, 3, 11, 11)),
            getmask = (\<lambda>font text.
              if font = 0 \<and> \<not> list_all (\<lambda>c. c < 256) text then Inl UnicodeEncodeError
              else Inr (solid (0, 3, 11, 11)))\<rparr>"

text \<open>A world with no directory, no file and no output yet.\<close>

definition fresh :: world where
  "fresh = \<lparr>dirs = {}, files = Map.empty, stdout = [], journal = []\<rparr>"

section \<open>The font size\<close>

lemma bit_length_le: "n < 2 ^ m \<Longrightarrow> bit_length n \<le> m"
proof (induction m arbitrary: n)
  case 0
  then have "n \<le> 0" by simp
  then show ?case by (simp add: bit_length.simps)
next
  case (Suc m)
  show ?case
  proof (cases "n \<le> 0")
    case True
    then show ?thesis by (simp add: bit_length.simps)
  next
    case False
    from Suc.prems have "n div 2 < 2 ^ m" by simp
    then have "bit_length (n div 2) \<le> m" by (rule Suc.IH)
    with False show ?thesis by (simp add: bit_length.simps [of n])
  qed
qed

lemma round53_exact: "n < 2 ^ 53 \<Longrightarrow> round53 n = n"
proof -
  assume "n < 2 ^ 53"
  then have "bit_length n \<le> 53" by (rule bit_length_le)
  then have "bit_length n - 53 = 0" by simp
  then show ?thesis by (simp add: round53_def)
qed

lemma round53_lower: "(n div 2 ^ (bit_length n - 53)) * 2 ^ (bit_length n - 53) \<le> round53 n"
  by (simp add: round53_def Let_def)

lemma round53_upper: "round53 n \<le> (n div 2 ^ (bit_length n - 53) + 1) * 2 ^ (bit_length n - 53)"
  by (simp add: round53_def Let_def)

lemma round53_nonneg: "0 \<le> n \<Longrightarrow> 0 \<le> round53 n"
proof -
  assume "0 \<le> n"
  then have "0 \<le> (n div 2 ^ (bit_length n - 53)) * 2 ^ (bit_length n - 53)"
    by (simp add: pos_imp_zdiv_nonneg_iff)
  then show ?thesis using round53_lower [of n] by linarith
qed

text \<open>
  Rounding stays inside a window: when \<open>n\<close> has at most \<open>53 + j\<close> bits, rounding moves
  it by less than \<open>2 ^ j\<close> and never across a multiple of \<open>2 ^ 53\<close> that is further
  away than that.
\<close>

lemma round53_window:
  assumes n: "n < 2 ^ (53 + j)" and j: "j \<le> 53"
    and lo: "q * 2 ^ 53 \<le> n" and hi: "n + 2 ^ j < (q + 1) * 2 ^ 53"
  shows "round53 n div 2 ^ 53 = q"
proof -
  define k where "k = bit_length n - 53"
  define d :: int where "d = 2 ^ k"
  define e :: int where "e = 2 ^ (53 - k)"
  define P :: int where "P = 2 ^ 53"
  have "bit_length n \<le> 53 + j" using n by (rule bit_length_le)
  then have kj: "k \<le> j" by (simp add: k_def)
  then have k53: "k \<le> 53" using j by simp
  have dj: "d \<le> 2 ^ j" unfolding d_def using kj by simp
  have pos: "0 < d" unfolding d_def by simp
  have "53 - k + k = 53" using k53 by simp
  then have "(2::int) ^ 53 = 2 ^ (53 - k + k)" by (simp only:)
  also have "\<dots> = e * d" unfolding e_def d_def by (rule power_add)
  finally have P: "P = e * d" unfolding P_def .
  have lo': "q * P \<le> n" and hi': "n + 2 ^ j < (q + 1) * P"
    using lo hi unfolding P_def by blast+
  have "(q * e) * d \<le> n" using lo' by (simp add: P mult.assoc)
  then have "(q * e * d) div d \<le> n div d" using pos by (rule zdiv_mono1)
  then have "q * e \<le> n div d" using pos by simp
  then have "(q * e) * d \<le> (n div d) * d" using pos by simp
  also have "\<dots> \<le> round53 n" unfolding d_def k_def by (rule round53_lower)
  finally have low: "q * P \<le> round53 n" by (simp add: P mult.assoc)
  have "round53 n \<le> (n div d + 1) * d" unfolding d_def k_def by (rule round53_upper)
  also have "\<dots> = (n div d) * d + d" by (simp add: algebra_simps)
  also have "\<dots> \<le> n + d"
  proof -
    have "0 \<le> n mod d" using pos by simp
    moreover have "n = (n div d) * d + n mod d" by simp
    ultimately show ?thesis by linarith
  qed
  also have "\<dots> \<le> n + 2 ^ j" using dj by simp
  also have "\<dots> < (q + 1) * P" by (rule hi')
  finally have up: "round53 n < (q + 1) * P" .
  have "round53 n div P = q"
  proof (rule int_div_pos_eq)
    show "round53 n = P * q + (round53 n - q * P)" by (simp add: algebra_simps)
    show "0 \<le> round53 n - q * P" using low by simp
    show "round53 n - q * P < P" using up by (simp add: algebra_simps)
  qed
  then show ?thesis unfolding P_def .
qed

text \<open>
  Below \<open>2 ^ 50\<close> the rounding of the product never reaches the next integer, so the
  truncated double product is the exact \<open>\<lfloor>2 * size / 5\<rfloor>\<close>. The proof rests on
  \<open>5 * 3602879701896397 = 2 ^ 54 + 1\<close>.
\<close>

lemma font_size_exact:
  assumes "0 \<le> sz" and "sz < 2 ^ 50"
  shows "font_size sz = (2 * sz) div 5"
proof -
  define n where "n = sz * 3602879701896397"
  define q where "q = (2 * sz) div 5"
  have sz53: "sz < 2 ^ 53" using assms(2) by simp
  have n0: "0 \<le> n" using assms(1) by (simp add: n_def)
  have f: "float_of_int sz = (sz, 0)"
    using assms(1) sz53 by (simp add: float_of_int_def round53_exact sgn_if)
  have m: "fmul (sz, 0) point_four = (round53 n, 53)"
    using n0 assms(1) by (simp add: point_four_def n_def sgn_if round53_exact)
  have five: "5 * n = 2 * sz * 2 ^ 53 + sz" by (simp add: n_def)
  have split: "2 * sz = 5 * q + (2 * sz) mod 5" by (simp add: q_def)
  have t0: "0 \<le> (2 * sz) mod 5" and t4: "(2 * sz) mod 5 \<le> 4" by simp_all
  have w: "round53 n div 2 ^ 53 = q"
  proof (rule round53_window [where j = 49])
    show "n < 2 ^ (53 + 49)" using assms by (simp add: n_def)
    show "(49::nat) \<le> 53" by simp
    show "q * 2 ^ 53 \<le> n" using five split t0 assms(1) by simp
    show "n + 2 ^ 49 < (q + 1) * 2 ^ 53" using five split t4 assms(2) by simp
  qed
  have r0: "0 \<le> round53 n" using n0 by (rule round53_nonneg)
  have "font_size sz = int_of_float (round53 n, 53)" by (simp only: font_size_def f m)
  also have "\<dots> = round53 n div 2 ^ 53" using r0 by (simp add: sgn_if)
  finally show ?thesis using w by (simp add: q_def)
qed

text \<open>For a positive size the product is positive, and truncation is the floor.\<close>

lemma font_size_floor:
  assumes "0 < sz"
  shows "font_size sz = floor_of_float (fmul (float_of_int sz) point_four)"
proof -
  define a where "a = round53 \<bar>sz\<bar>"
  define p where "p = round53 \<bar>a * 3602879701896397\<bar>"
  have a0: "0 \<le> a" unfolding a_def by (rule round53_nonneg) simp
  have p0: "0 \<le> p" unfolding p_def by (rule round53_nonneg) simp
  have f: "float_of_int sz = (a, 0)"
    using assms by (simp add: float_of_int_def a_def)
  have s: "0 \<le> sgn (a * 3602879701896397) * p"
    using a0 p0 by (simp add: sgn_if)
  have m: "fmul (a, 0) point_four = (sgn (a * 3602879701896397) * p, 53)"
    by (simp add: point_four_def p_def)
  show ?thesis
    unfolding font_size_def f m using s by (simp add: sgn_if)
qed

lemma font_size_16: "font_size 16 = 6"
  by (rule font_size_exact [of 16, simplified])

lemma font_size_48: "font_size 48 = 19"
  by (rule font_size_exact [of 48, simplified])

lemma font_size_128: "font_size 128 = 51"
  by (rule font_size_exact [of 128, simplified])

section \<open>The rendered icon\<close>

text \<open>
  \<open>create_icon\<close> in three steps: the canvas, the box of the label in the font the
  \<^verbatim>\<open>try\<close> block ends with, and the label drawn at the origin computed from that box.
\<close>

lemma create_icon_steps:
  "create_icon env sz =
     (case Image_new (asc ''RGB'') (sz, sz) background of
        Inl e \<Rightarrow> Inl e
      | Inr img \<Rightarrow>
          (case getbbox env (load_font env sz) label of
             Inl e \<Rightarrow> Inl e
           | Inr (l, t, r, b) \<Rightarrow>
               draw_text env img ((sz - (r - l)) div 2, (sz - (b - t)) div 2)
                 label white (load_font env sz)))"
  by (simp add: create_icon_def load_font_def Let_def split: sum.splits prod.splits)

text \<open>
  When the font measures the label as \<open>(l, t, r, b)\<close> and rasterises it as \<open>m\<close>, the
  icon is the canvas with the label pasted at
  \<open>((size - (r - l)) div 2, (size - (b - t)) div 2)\<close>: inside the canvas every pixel is the
  background blended with white by the coverage at the pixel's offset from that origin.
\<close>

lemma create_icon_drawn:
  assumes "0 \<le> sz"
    and "getbbox env (load_font env sz) label = Inr (l, t, r, b)"
    and "getmask env (load_font env sz) label = Inr m"
  shows "create_icon env sz =
    Inr \<lparr>mode = asc ''RGB'', width = sz, height = sz,
         getpixel = (\<lambda>(i, j).
           if 0 \<le> i \<and> i < sz \<and> 0 \<le> j \<and> j < sz
           then Some (blend (m (i - (sz - (r - l)) div 2, j - (sz - (b - t)) div 2))
                        background white)
           else None)\<rparr>"
  using assms by (simp add: create_icon_steps fun_eq_iff)

text \<open>An icon is returned only when the side is not negative and both steps succeed.\<close>

lemma create_icon_Inr:
  assumes "create_icon env sz = Inr img"
  shows "0 \<le> sz
    \<and> (\<exists>l t r b m. getbbox env (load_font env sz) label = Inr (l, t, r, b)
          \<and> getmask env (load_font env sz) label = Inr m)"
proof (cases "getbbox env (load_font env sz) label")
  case (Inl e)
  with assms show ?thesis by (simp add: create_icon_steps split: if_splits)
next
  case (Inr box)
  obtain l t r b where box: "box = (l, t, r, b)" by (cases box)
  show ?thesis
  proof (cases "getmask env (load_font env sz) label")
    case (Inl e)
    with assms Inr box show ?thesis by (simp add: create_icon_steps split: if_splits)
  next
    case (Inr m)
    with assms \<open>getbbox env (load_font env sz) label = Inr box\<close> box show ?thesis
      by (simp add: create_icon_steps split: if_splits)
  qed
qed

lemma create_icon_negative: "sz < 0 \<Longrightarrow> create_icon env sz = Inl ValueError"
  by (simp add: create_icon_steps)

lemma create_icon_unmeasured:
  "0 \<le> sz \<Longrightarrow> getbbox env (load_font env sz) label = Inl e \<Longrightarrow> create_icon env sz = Inl e"
  by (simp add: create_icon_steps)

lemma create_icon_undrawn:
  "0 \<le> sz \<Longrightarrow> getbbox env (load_font env sz) label = Inr box \<Longrightarrow>
   getmask env (load_font env sz) label = Inl e \<Longrightarrow> create_icon env sz = Inl e"
  by (cases box) (simp add: create_icon_steps)

lemma blend_0_background: "blend 0 background white = background"
  by (simp add: background_def white_def blend8_def)

lemma blend_255_background: "blend 255 background white = white"
  by (simp add: background_def white_def blend8_def)

lemma load_font_fallback:
  "truetype env arial (font_size sz) = Inl e \<Longrightarrow> load_font env sz = load_default env"
  by (simp add: load_font_def)

lemma load_font_preferred:
  "truetype env arial (font_size sz) = Inr f \<Longrightarrow> load_font env sz = f"
  by (simp add: load_font_def)

lemma load_font_linux: "load_font linux sz = 10"
  by (simp add: load_font_def linux_def)

lemma getbbox_linux: "getbbox linux font text = Inr (0, 3, 11, 11)"
  by (simp add: linux_def)

lemma getmask_linux: "getmask linux font text = Inr (solid (0, 3, 11, 11))"
  by (simp add: linux_def)

lemma load_font_mac: "load_font mac sz = font_size sz"
  by (simp add: load_font_def mac_def)

lemma getbbox_mac_label: "getbbox mac font label = Inr (0, font div 4, font, font)"
  by (simp add: mac_def label_def)

lemma getmask_mac_label: "getmask mac font label = Inr (solid (0, font div 4, font, font))"
  by (simp add: mac_def label_def)

text \<open>
  C9. For every positive size the font size handed to the loader of the system font is
  the floor of the double product \<open>size * 0.4\<close>; for every positive size below \<open>2 ^ 50\<close>
  that is the exact \<open>\<lfloor>2 * size / 5\<rfloor>\<close>; for 16, 48 and 128 it is 6, 19 and 51. That
  this is the size \<open>create_icon\<close> passes: whatever font the loader returns for the
  system font's path and that size is the font the icon is measured and drawn with.
\<close>

theorem font_size_is_floor:
  "(0 < sz \<longrightarrow> font_size sz = floor_of_float (fmul (float_of_int sz) point_four))
   \<and> (0 < sz \<and> sz < 2 ^ 50 \<longrightarrow> font_size sz = (2 * sz) div 5)
   \<and> font_size 16 = 6 \<and> font_size 48 = 19 \<and> font_size 128 = 51
   \<and> (0 < sz
        \<and> truetype env arial (floor_of_float (fmul (float_of_int sz) point_four)) = Inr f
        \<and> getbbox env f label = Inr (l, t, r, b) \<and> getmask env f label = Inr m
      \<longrightarrow> (\<exists>img. create_icon env sz = Inr img \<and> width img = sz \<and> height img = sz
            \<and> (\<forall>i j. 0 \<le> i \<and> i < sz \<and> 0 \<le> j \<and> j < sz \<longrightarrow>
                  getpixel img (i, j) =
                    Some (blend (m (i - (sz - (r - l)) div 2, j - (sz - (b - t)) div 2))
                            background white))))"
proof -
  have fl: "0 < sz \<longrightarrow> font_size sz = floor_of_float (fmul (float_of_int sz) point_four)"
    using font_size_floor by blast
  have ex: "0 < sz \<and> sz < 2 ^ 50 \<longrightarrow> font_size sz = (2 * sz) div 5"
    using font_size_exact [of sz] by simp
  have call: "0 < sz
        \<and> truetype env arial (floor_of_float (fmul (float_of_int sz) point_four)) = Inr f
        \<and> getbbox env f label = Inr (l, t, r, b) \<and> getmask env f label = Inr m
      \<longrightarrow> (\<exists>img. create_icon env sz = Inr img \<and> width img = sz \<and> height img = sz
            \<and> (\<forall>i j. 0 \<le> i \<and> i < sz \<and> 0 \<le> j \<and> j < sz \<longrightarrow>
                  getpixel img (i, j) =
                    Some (blend (m (i - (sz - (r - l)) div 2, j - (sz - (b - t)) div 2))
                            background white)))"
  proof
    assume a: "0 < sz
        \<and> truetype env arial (floor_of_float (fmul (float_of_int sz) point_four)) = Inr f
        \<and> getbbox env f label = Inr (l, t, r, b) \<and> getmask env f label = Inr m"
    then have "truetype env arial (font_size sz) = Inr f" using fl by simp
    then have f: "load_font env sz = f" by (rule load_font_preferred)
    have "create_icon env sz =
      Inr \<lparr>mode = asc ''RGB'', width = sz, height = sz,
         getpixel = (\<lambda>(i, j).
           if 0 \<le> i \<and> i < sz \<and> 0 \<le> j \<and> j < sz
           then Some (blend (m (i - (sz - (r - l)) div 2, j - (sz - (b - t)) div 2))
                        background white)
           else None)\<rparr>"
      using a by (intro create_icon_drawn) (simp_all add: f)
    then show "\<exists>img. create_icon env sz = Inr img \<and> width img = sz \<and> height img = sz
            \<and> (\<forall>i j. 0 \<le> i \<and> i < sz \<and> 0 \<le> j \<and> j < sz \<longrightarrow>
                  getpixel img (i, j) =
                    Some (blend (m (i - (sz - (r - l)) div 2, j - (sz - (b - t)) div 2))
                            background white))"
      by simp
  qed
  from fl ex call font_size_16 font_size_48 font_size_128 show ?thesis by blast
qed

text \<open>
  On \<open>mac\<close> at size 48: the loader is asked for size 19, the label measures
  \<open>(0, 4, 19, 19)\<close> in that font, the origin is \<open>(14, 16)\<close>, and the pixel \<open>(14, 20)\<close>, at
  offset \<open>(0, 4)\<close>, is the first one down the left edge that is white.
\<close>

theorem font_size_is_floor_witness:
  "(0::int) < 48 \<and> (48::int) < 2 ^ 50
   \<and> font_size 48 = floor_of_float (fmul (float_of_int 48) point_four)
   \<and> font_size 48 = (2 * 48) div 5
   \<and> truetype mac arial (floor_of_float (fmul (float_of_int 48) point_four)) = Inr 19
   \<and> getbbox mac 19 label = Inr (0, 4, 19, 19)
   \<and> (\<exists>img. create_icon mac 48 = Inr img \<and> width img = 48 \<and> height img = 48
         \<and> getpixel img (14, 19) = Some (74, 144, 226)
         \<and> getpixel img (14, 20) = Some (255, 255, 255))"
proof -
  have n: "font_size 48 = floor_of_float (fmul (float_of_int 48) point_four)"
    "font_size 48 = (2 * 48) div 5"
    using font_size_is_floor [of 48 mac 19 0 4 19 19 "solid (0, 4, 19, 19)"] by simp_all
  then have fl: "floor_of_float (fmul (float_of_int 48) point_four) = 19" by simp
  have t: "truetype mac arial (floor_of_float (fmul (float_of_int 48) point_four)) = Inr 19"
    by (simp add: fl mac_def)
  have g: "getbbox mac 19 label = Inr (0, 4, 19, 19)"
    by (simp add: getbbox_mac_label)
  have k: "getmask mac 19 label = Inr (solid (0, 4, 19, 19))"
    by (simp add: getmask_mac_label)
  have p: "(0::int) < 48" by simp
  have "\<exists>img. create_icon mac 48 = Inr img \<and> width img = 48 \<and> height img = 48
            \<and> (\<forall>i j. 0 \<le> i \<and> i < 48 \<and> 0 \<le> j \<and> j < 48 \<longrightarrow>
                  getpixel img (i, j) =
                    Some (blend (solid (0, 4, 19, 19)
                            (i - (48 - (19 - 0)) div 2, j - (48 - (19 - 4)) div 2))
                            background white))"
    using font_size_is_floor [of 48 mac 19 0 4 19 19 "solid (0, 4, 19, 19)"] t g k p by blast
  then obtain img where img: "create_icon mac 48 = Inr img" "width img = 48" "height img = 48"
    and px: "\<forall>i j. 0 \<le> i \<and> i < 48 \<and> 0 \<le> j \<and> j < 48 \<longrightarrow>
                  getpixel img (i, j) =
                    Some (blend (solid (0, 4, 19, 19)
                            (i - (48 - (19 - 0)) div 2, j - (48 - (19 - 4)) div 2))
                            background white)"
    by blast
  have "getpixel img (14, 19) = Some background"
    using px [rule_format, of 14 19] by (simp add: solid_def blend_0_background)
  moreover have "getpixel img (14, 20) = Some white"
    using px [rule_format, of 14 20] by (simp add: solid_def blend_255_background)
  ultimately show ?thesis
    using n t g img by (simp add: background_def white_def)
qed

text \<open>
  C6. For every positive size, every image \<open>create_icon\<close> returns is in mode RGB, so
  of three channels, and its width and height are the size, whatever the installation
  and so whichever font was selected; and when the selected font measures and rasterises
  the label, an image is returned, and every pixel of the canvas that the label's ink
  does not touch has the background colour \<open>(0x4A, 0x90, 0xE2)\<close>.
\<close>

theorem create_icon_square:
  assumes "0 < sz"
  shows "(\<forall>img. create_icon env sz = Inr img \<longrightarrow>
            width img = sz \<and> height img = sz \<and> mode img = asc ''RGB''
            \<and> (\<forall>i j. \<not> (0 \<le> i \<and> i < sz \<and> 0 \<le> j \<and> j < sz) \<longrightarrow>
                  getpixel img (i, j) = None))
    \<and> (getbbox env (load_font env sz) label = Inr (l, t, r, b)
        \<and> getmask env (load_font env sz) label = Inr m \<longrightarrow>
         (\<exists>img. create_icon env sz = Inr img
            \<and> width img = sz \<and> height img = sz \<and> mode img = asc ''RGB''
            \<and> (\<forall>i j. 0 \<le> i \<and> i < sz \<and> 0 \<le> j \<and> j < sz
                  \<and> m (i - (sz - (r - l)) div 2, j - (sz - (b - t)) div 2) = 0
                  \<longrightarrow> getpixel img (i, j) = Some background)
            \<and> (\<forall>i j. \<not> (0 \<le> i \<and> i < sz \<and> 0 \<le> j \<and> j < sz) \<longrightarrow>
                  getpixel img (i, j) = None)))"
proof -
  have pos: "0 \<le> sz" using assms by simp
  have every: "\<forall>img. create_icon env sz = Inr img \<longrightarrow>
            width img = sz \<and> height img = sz \<and> mode img = asc ''RGB''
            \<and> (\<forall>i j. \<not> (0 \<le> i \<and> i < sz \<and> 0 \<le> j \<and> j < sz) \<longrightarrow>
                  getpixel img (i, j) = None)"
  proof (intro allI impI)
    fix img
    assume c: "create_icon env sz = Inr img"
    from create_icon_Inr [OF c] obtain l' t' r' b' m' where
      g: "getbbox env (load_font env sz) label = Inr (l', t', r', b')"
      and k: "getmask env (load_font env sz) label = Inr m'"
      by blast
    from create_icon_drawn [OF pos g k] c
    have "img = \<lparr>mode = asc ''RGB'', width = sz, height = sz,
         getpixel = (\<lambda>(i, j).
           if 0 \<le> i \<and> i < sz \<and> 0 \<le> j \<and> j < sz
           then Some (blend (m' (i - (sz - (r' - l')) div 2, j - (sz - (b' - t')) div 2))
                        background white)
           else None)\<rparr>"
      by simp
    then show "width img = sz \<and> height img = sz \<and> mode img = asc ''RGB''
            \<and> (\<forall>i j. \<not> (0 \<le> i \<and> i < sz \<and> 0 \<le> j \<and> j < sz) \<longrightarrow>
                  getpixel img (i, j) = None)"
      by simp
  qed
  have drawn: "getbbox env (load_font env sz) label = Inr (l, t, r, b)
        \<and> getmask env (load_font env sz) label = Inr m \<longrightarrow>
         (\<exists>img. create_icon env sz = Inr img
            \<and> width img = sz \<and> height img = sz \<and> mode img = asc ''RGB''
            \<and> (\<forall>i j. 0 \<le> i \<and> i < sz \<and> 0 \<le> j \<and> j < sz
                  \<and> m (i - (sz - (r - l)) div 2, j - (sz - (b - t)) div 2) = 0
                  \<longrightarrow> getpixel img (i, j) = Some background)
            \<and> (\<forall>i j. \<not> (0 \<le> i \<and> i < sz \<and> 0 \<le> j \<and> j < sz) \<longrightarrow>
                  getpixel img (i, j) = None))"
    using pos by (simp add: create_icon_drawn blend_0_background)
  from every drawn show ?thesis by blast
qed

theorem create_icon_square_witness:
  "(0::int) < 16
   \<and> getbbox linux (load_font linux 16) label = Inr (0, 3, 11, 11)
   \<and> getmask linux (load_font linux 16) label = Inr (solid (0, 3, 11, 11))
   \<and> (\<exists>img. create_icon linux 16 = Inr img
     \<and> width img = 16 \<and> height img = 16 \<and> mode img = [82, 71, 66]
     \<and> getpixel img (0, 0) = Some (74, 144, 226)
     \<and> getpixel img (15, 15) = Some (74, 144, 226)
     \<and> getpixel img (16, 0) = None)"
proof -
  have g: "getbbox linux (load_font linux 16) label = Inr (0, 3, 11, 11)"
    by (rule getbbox_linux)
  have k: "getmask linux (load_font linux 16) label = Inr (solid (0, 3, 11, 11))"
    by (rule getmask_linux)
  have p: "(0::int) < 16" by simp
  have "\<exists>img. create_icon linux 16 = Inr img
            \<and> width img = 16 \<and> height img = 16 \<and> mode img = asc ''RGB''
            \<and> (\<forall>i j. 0 \<le> i \<and> i < 16 \<and> 0 \<le> j \<and> j < 16
                  \<and> solid (0, 3, 11, 11)
                      (i - (16 - (11 - 0)) div 2, j - (16 - (11 - 3)) div 2) = 0
                  \<longrightarrow> getpixel img (i, j) = Some background)
            \<and> (\<forall>i j. \<not> (0 \<le> i \<and> i < 16 \<and> 0 \<le> j \<and> j < 16) \<longrightarrow>
                  getpixel img (i, j) = None)"
    using create_icon_square [of 16 linux 0 3 11 11 "solid (0, 3, 11, 11)"] g k p by blast
  then obtain img where img: "create_icon linux 16 = Inr img"
    "width img = 16" "height img = 16" "mode img = asc ''RGB''"
    and bg: "\<forall>i j. 0 \<le> i \<and> i < 16 \<and> 0 \<le> j \<and> j < 16
          \<and> solid (0, 3, 11, 11) (i - (16 - (11 - 0)) div 2, j - (16 - (11 - 3)) div 2) = 0
          \<longrightarrow> getpixel img (i, j) = Some background"
    and out: "\<forall>i j. \<not> (0 \<le> i \<and> i < 16 \<and> 0 \<le> j \<and> j < 16) \<longrightarrow> getpixel img (i, j) = None"
    by blast
  have "getpixel img (0, 0) = Some background"
    using bg [rule_format, of 0 0] by (simp add: solid_def)
  moreover have "getpixel img (15, 15) = Some background"
    using bg [rule_format, of 15 15] by (simp add: solid_def)
  moreover have "getpixel img (16, 0) = None"
    using out [rule_format, of 16 0] by simp
  ultimately show ?thesis
    using img g k by (simp add: background_def asc_def)
qed

section \<open>The font fallback\<close>

text \<open>
  C5. When the load of the system font raises, \<open>create_icon\<close> measures and draws the
  label with the default font, which the library hands out without a size: the box and
  the mask of the label are those of that one font, whatever the requested size, so the
  glyphs do not scale with the icon. The computed \<open>font_size\<close> reaches only the loader
  of the system font: when the load succeeds, the label is measured and drawn with the
  font it returned for that size.
\<close>

theorem fallback_ignores_size:
  "(0 < sz \<and> truetype env arial (font_size sz) = Inl e
      \<and> getbbox env (load_default env) label = Inr (l, t, r, b)
      \<and> getmask env (load_default env) label = Inr m
    \<longrightarrow> (\<exists>img. create_icon env sz = Inr img \<and> width img = sz \<and> height img = sz
          \<and> (\<forall>i j. 0 \<le> i \<and> i < sz \<and> 0 \<le> j \<and> j < sz \<longrightarrow>
                getpixel img (i, j) =
                  Some (blend (m (i - (sz - (r - l)) div 2, j - (sz - (b - t)) div 2))
                          background white))))
   \<and> (0 < sz \<and> truetype env arial (font_size sz) = Inr f
      \<and> getbbox env f label = Inr (l, t, r, b) \<and> getmask env f label = Inr m
    \<longrightarrow> (\<exists>img. create_icon env sz = Inr img \<and> width img = sz \<and> height img = sz
          \<and> (\<forall>i j. 0 \<le> i \<and> i < sz \<and> 0 \<le> j \<and> j < sz \<longrightarrow>
                getpixel img (i, j) =
                  Some (blend (m (i - (sz - (r - l)) div 2, j - (sz - (b - t)) div 2))
                          background white))))"
proof -
  have with_font: "\<exists>img. create_icon env sz = Inr img \<and> width img = sz \<and> height img = sz
          \<and> (\<forall>i j. 0 \<le> i \<and> i < sz \<and> 0 \<le> j \<and> j < sz \<longrightarrow>
                getpixel img (i, j) =
                  Some (blend (m (i - (sz - (r - l)) div 2, j - (sz - (b - t)) div 2))
                          background white))"
    if "0 < sz" and "load_font env sz = g" and "getbbox env g label = Inr (l, t, r, b)"
      and "getmask env g label = Inr m" for g
  proof -
    have "create_icon env sz =
      Inr \<lparr>mode = asc ''RGB'', width = sz, height = sz,
         getpixel = (\<lambda>(i, j).
           if 0 \<le> i \<and> i < sz \<and> 0 \<le> j \<and> j < sz
           then Some (blend (m (i - (sz - (r - l)) div 2, j - (sz - (b - t)) div 2))
                        background white)
           else None)\<rparr>"
      using that by (intro create_icon_drawn) simp_all
    then show ?thesis by simp
  qed
  have fall: "0 < sz \<and> truetype env arial (font_size sz) = Inl e
      \<and> getbbox env (load_default env) label = Inr (l, t, r, b)
      \<and> getmask env (load_default env) label = Inr m
    \<longrightarrow> (\<exists>img. create_icon env sz = Inr img \<and> width img = sz \<and> height img = sz
          \<and> (\<forall>i j. 0 \<le> i \<and> i < sz \<and> 0 \<le> j \<and> j < sz \<longrightarrow>
                getpixel img (i, j) =
                  Some (blend (m (i - (sz - (r - l)) div 2, j - (sz - (b - t)) div 2))
                          background white)))"
    using with_font [of "load_default env"] load_font_fallback [of env sz e] by blast
  have pref: "0 < sz \<and> truetype env arial (font_size sz) = Inr f
      \<and> getbbox env f label = Inr (l, t, r, b) \<and> getmask env f label = Inr m
    \<longrightarrow> (\<exists>img. create_icon env sz = Inr img \<and> width img = sz \<and> height img = sz
          \<and> (\<forall>i j. 0 \<le> i \<and> i < sz \<and> 0 \<le> j \<and> j < sz \<longrightarrow>
                getpixel img (i, j) =
                  Some (blend (m (i - (sz - (r - l)) div 2, j - (sz - (b - t)) div 2))
                          background white)))"
    using with_font [of f] load_font_preferred [of env sz f] by blast
  from fall pref show ?thesis by blast
qed

text \<open>
  On \<open>linux\<close> the default font measures the label as \<open>(0, 3, 11, 11)\<close>. The icons of
  size 16 and 128 have their origins at \<open>(2, 4)\<close> and \<open>(58, 60)\<close>, and in both the ink
  starts three rows below the origin and is 11 pixels wide: the glyphs have not grown
  with the icon. On \<open>mac\<close> the icon of size 48 is drawn with the system font at 19, whose
  ink starts four rows below the origin \<open>(14, 16)\<close>.
\<close>

theorem fallback_ignores_size_witness:
  "truetype linux arial (font_size 16) = Inl OSError
   \<and> truetype linux arial (font_size 128) = Inl OSError
   \<and> getbbox linux (load_default linux) label = Inr (0, 3, 11, 11)
   \<and> (\<exists>img. create_icon linux 16 = Inr img
         \<and> getpixel img (2, 6) = Some (74, 144, 226)
         \<and> getpixel img (2, 7) = Some (255, 255, 255)
         \<and> getpixel img (12, 7) = Some (255, 255, 255)
         \<and> getpixel img (13, 7) = Some (74, 144, 226))
   \<and> (\<exists>img. create_icon linux 128 = Inr img
         \<and> getpixel img (58, 62) = Some (74, 144, 226)
         \<and> getpixel img (58, 63) = Some (255, 255, 255)
         \<and> getpixel img (68, 63) = Some (255, 255, 255)
         \<and> getpixel img (69, 63) = Some (74, 144, 226))
   \<and> truetype mac arial (font_size 48) = Inr 19
   \<and> (\<exists>img. create_icon mac 48 = Inr img
         \<and> getpixel img (14, 19) = Some (74, 144, 226)
         \<and> getpixel img (14, 20) = Some (255, 255, 255))"
proof -
  have t: "truetype linux arial (font_size 16) = Inl OSError"
    "truetype linux arial (font_size 128) = Inl OSError"
    by (simp_all add: linux_def)
  have g: "getbbox linux (load_default linux) label = Inr (0, 3, 11, 11)"
    by (rule getbbox_linux)
  have k: "getmask linux (load_default linux) label = Inr (solid (0, 3, 11, 11))"
    by (rule getmask_linux)
  have p: "(0::int) < 16" "(0::int) < 128" "(0::int) < 48" by simp_all
  have "\<exists>img. create_icon linux 16 = Inr img \<and> width img = 16 \<and> height img = 16
          \<and> (\<forall>i j. 0 \<le> i \<and> i < 16 \<and> 0 \<le> j \<and> j < 16 \<longrightarrow>
                getpixel img (i, j) =
                  Some (blend (solid (0, 3, 11, 11)
                          (i - (16 - (11 - 0)) div 2, j - (16 - (11 - 3)) div 2))
                          background white))"
    using fallback_ignores_size
      [of 16 linux OSError 0 3 11 11 "solid (0, 3, 11, 11)"] t g k p by blast
  then obtain a where a: "create_icon linux 16 = Inr a"
    and pa: "\<forall>i j. 0 \<le> i \<and> i < 16 \<and> 0 \<le> j \<and> j < 16 \<longrightarrow>
                getpixel a (i, j) =
                  Some (blend (solid (0, 3, 11, 11)
                          (i - (16 - (11 - 0)) div 2, j - (16 - (11 - 3)) div 2))
                          background white)"
    by blast
  have small: "getpixel a (2, 6) = Some background" "getpixel a (2, 7) = Some white"
    "getpixel a (12, 7) = Some white" "getpixel a (13, 7) = Some background"
    using pa [rule_format, of 2 6] pa [rule_format, of 2 7]
      pa [rule_format, of 12 7] pa [rule_format, of 13 7]
    by (simp_all add: solid_def blend_0_background blend_255_background)
  have "\<exists>img. create_icon linux 128 = Inr img \<and> width img = 128 \<and> height img = 128
          \<and> (\<forall>i j. 0 \<le> i \<and> i < 128 \<and> 0 \<le> j \<and> j < 128 \<longrightarrow>
                getpixel img (i, j) =
                  Some (blend (solid (0, 3, 11, 11)
                          (i - (128 - (11 - 0)) div 2, j - (128 - (11 - 3)) div 2))
                          background white))"
    using fallback_ignores_size
      [of 128 linux OSError 0 3 11 11 "solid (0, 3, 11, 11)"] t g k p by blast
  then obtain c where c: "create_icon linux 128 = Inr c"
    and pc: "\<forall>i j. 0 \<le> i \<and> i < 128 \<and> 0 \<le> j \<and> j < 128 \<longrightarrow>
                getpixel c (i, j) =
                  Some (blend (solid (0, 3, 11, 11)
                          (i - (128 - (11 - 0)) div 2, j - (128 - (11 - 3)) div 2))
                          background white)"
    by blast
  have large: "getpixel c (58, 62) = Some background" "getpixel c (58, 63) = Some white"
    "getpixel c (68, 63) = Some white" "getpixel c (69, 63) = Some background"
    using pc [rule_format, of 58 62] pc [rule_format, of 58 63]
      pc [rule_format, of 68 63] pc [rule_format, of 69 63]
    by (simp_all add: solid_def blend_0_background blend_255_background)
  have tm: "truetype mac arial (font_size 48) = Inr 19"
    by (simp add: mac_def font_size_48)
  have gm: "getbbox mac 19 label = Inr (0, 4, 19, 19)"
    by (simp add: getbbox_mac_label)
  have km: "getmask mac 19 label = Inr (solid (0, 4, 19, 19))"
    by (simp add: getmask_mac_label)
  have "\<exists>img. create_icon mac 48 = Inr img \<and> width img = 48 \<and> height img = 48
          \<and> (\<forall>i j. 0 \<le> i \<and> i < 48 \<and> 0 \<le> j \<and> j < 48 \<longrightarrow>
                getpixel img (i, j) =
                  Some (blend (solid (0, 4, 19, 19)
                          (i - (48 - (19 - 0)) div 2, j - (48 - (19 - 4)) div 2))
                          background white))"
    using fallback_ignores_size
      [of 48 mac OSError 0 4 19 19 "solid (0, 4, 19, 19)" 19] tm gm km p by blast
  then obtain d where d: "create_icon mac 48 = Inr d"
    and pd: "\<forall>i j. 0 \<le> i \<and> i < 48 \<and> 0 \<le> j \<and> j < 48 \<longrightarrow>
                getpixel d (i, j) =
                  Some (blend (solid (0, 4, 19, 19)
                          (i - (48 - (19 - 0)) div 2, j - (48 - (19 - 4)) div 2))
                          background white)"
    by blast
  have sys: "getpixel d (14, 19) = Some background" "getpixel d (14, 20) = Some white"
    using pd [rule_format, of 14 19] pd [rule_format, of 14 20]
    by (simp_all add: solid_def blend_0_background blend_255_background)
  have A: "\<exists>img. create_icon linux 16 = Inr img
         \<and> getpixel img (2, 6) = Some (74, 144, 226)
         \<and> getpixel img (2, 7) = Some (255, 255, 255)
         \<and> getpixel img (12, 7) = Some (255, 255, 255)
         \<and> getpixel img (13, 7) = Some (74, 144, 226)"
    using a small by (simp add: background_def white_def)
  have C: "\<exists>img. create_icon linux 128 = Inr img
         \<and> getpixel img (58, 62) = Some (74, 144, 226)
         \<and> getpixel img (58, 63) = Some (255, 255, 255)
         \<and> getpixel img (68, 63) = Some (255, 255, 255)
         \<and> getpixel img (69, 63) = Some (74, 144, 226)"
    using c large by (simp add: background_def white_def)
  have D: "\<exists>img. create_icon mac 48 = Inr img
         \<and> getpixel img (14, 19) = Some (74, 144, 226)
         \<and> getpixel img (14, 20) = Some (255, 255, 255)"
    using d sys by (simp add: background_def white_def)
  from t g tm A C D show ?thesis by blast
qed

section \<open>The draw origin\<close>

text \<open>
  C10. \<open>create_icon\<close> checks neither the size nor the origin it computes. For every
  positive size and every measured box of the label: when the width of the box exceeds
  the size, \<open>x\<close> is negative, and likewise \<open>y\<close> for the height; the image is returned
  all the same, it is size by size, and each of its pixels takes the label's ink at the
  pixel's offset from that origin, so the origin is used as computed and the ink that
  falls outside the canvas is lost.
\<close>

theorem origin_not_clamped:
  assumes "0 < sz"
    and "getbbox env (load_font env sz) label = Inr (l, t, r, b)"
    and "getmask env (load_font env sz) label = Inr m"
  shows "(sz < r - l \<longrightarrow> (sz - (r - l)) div 2 < 0)
    \<and> (sz < b - t \<longrightarrow> (sz - (b - t)) div 2 < 0)
    \<and> (\<exists>img. create_icon env sz = Inr img \<and> width img = sz \<and> height img = sz
          \<and> (\<forall>i j. 0 \<le> i \<and> i < sz \<and> 0 \<le> j \<and> j < sz \<longrightarrow>
                getpixel img (i, j) =
                  Some (blend (m (i - (sz - (r - l)) div 2, j - (sz - (b - t)) div 2))
                          background white)))"
proof -
  have x: "sz < r - l \<longrightarrow> (sz - (r - l)) div 2 < 0" by simp
  have y: "sz < b - t \<longrightarrow> (sz - (b - t)) div 2 < 0" by simp
  have "0 \<le> sz" using assms(1) by simp
  then have "create_icon env sz =
    Inr \<lparr>mode = asc ''RGB'', width = sz, height = sz,
         getpixel = (\<lambda>(i, j).
           if 0 \<le> i \<and> i < sz \<and> 0 \<le> j \<and> j < sz
           then Some (blend (m (i - (sz - (r - l)) div 2, j - (sz - (b - t)) div 2))
                        background white)
           else None)\<rparr>"
    using assms(2,3) by (rule create_icon_drawn)
  then have "\<exists>img. create_icon env sz = Inr img \<and> width img = sz \<and> height img = sz
          \<and> (\<forall>i j. 0 \<le> i \<and> i < sz \<and> 0 \<le> j \<and> j < sz \<longrightarrow>
                getpixel img (i, j) =
                  Some (blend (m (i - (sz - (r - l)) div 2, j - (sz - (b - t)) div 2))
                          background white))"
    by simp
  with x y show ?thesis by blast
qed

text \<open>
  On \<open>linux\<close> the label is 11 wide. At size 8 the origin is \<open>(-2, 0)\<close>; the image is 8 by
  8; its pixel \<open>(0, 3)\<close> is white, being the ink at offset \<open>(2, 3)\<close>, and the two columns
  of ink to the left of it are cut off.
\<close>

theorem origin_not_clamped_witness:
  "(0::int) < 8 \<and> getbbox linux (load_font linux 8) label = Inr (0, 3, 11, 11)
   \<and> getmask linux (load_font linux 8) label = Inr (solid (0, 3, 11, 11))
   \<and> (8::int) < 11 - 0 \<and> (8 - (11 - 0)) div 2 = (- 2::int)
   \<and> (\<exists>img. create_icon linux 8 = Inr img \<and> width img = 8 \<and> height img = 8
         \<and> getpixel img (0, 3) = Some (255, 255, 255)
         \<and> getpixel img (0, 0) = Some (74, 144, 226))"
proof -
  have p: "(0::int) < 8" by simp
  have g: "getbbox linux (load_font linux 8) label = Inr (0, 3, 11, 11)"
    by (rule getbbox_linux)
  have k: "getmask linux (load_font linux 8) label = Inr (solid (0, 3, 11, 11))"
    by (rule getmask_linux)
  from origin_not_clamped [OF p g k]
  obtain img where img: "create_icon linux 8 = Inr img" "width img = 8" "height img = 8"
    and px: "\<forall>i j. 0 \<le> i \<and> i < 8 \<and> 0 \<le> j \<and> j < 8 \<longrightarrow>
                getpixel img (i, j) =
                  Some (blend (solid (0, 3, 11, 11)
                          (i - (8 - (11 - 0)) div 2, j - (8 - (11 - 3)) div 2))
                          background white)"
    by blast
  have "getpixel img (0, 3) = Some white"
    using px [rule_format, of 0 3] by (simp add: solid_def blend_255_background)
  moreover have "getpixel img (0, 0) = Some background"
    using px [rule_format, of 0 0] by (simp add: solid_def blend_0_background)
  ultimately show ?thesis
    using img g k by (simp add: white_def background_def)
qed

text \<open>
  C1, at an input where the code does not centre the label. On \<open>linux\<close> the label
  measures \<open>(0, 3, 11, 11)\<close>: 8 high, with its ink starting 3 rows below the anchor. At
  size 16 the code computes \<open>y = (16 - 8) div 2 = 4\<close> and draws at \<open>(2, 4)\<close>, so the
  drawn box is \<open>(2, 7, 13, 15)\<close>: the ink fills the rows 7 to 14, with 7 rows of
  background above it and 1 below, where a centred box has 4 and 4. The top offset of the
  measured box never enters the origin.
\<close>

theorem origin_ignores_offsets:
  "getbbox linux (load_font linux 16) label = Inr (0, 3, 11, 11)
   \<and> textbbox linux ((16 - (11 - 0)) div 2, (16 - (11 - 3)) div 2) label (load_font linux 16)
        = Inr (2, 7, 13, 15)
   \<and> (\<exists>img. create_icon linux 16 = Inr img
         \<and> map (\<lambda>j. getpixel img (2, j) = Some white) [0, 1, 2, 3, 4, 5, 6, 7, 8, 9, 10, 11, 12,
              13, 14, 15]
           = [False, False, False, False, False, False, False, True, True, True, True, True,
              True, True, True, False]
         \<and> map (\<lambda>j. getpixel img (2, j) = Some background) [0, 1, 2, 3, 4, 5, 6, 7, 8, 9, 10,
              11, 12, 13, 14, 15]
           = [True, True, True, True, True, True, True, False, False, False, False, False,
              False, False, False, True])
   \<and> (7::int) \<noteq> 16 - (11 - 3) - 7"
proof -
  have g: "getbbox linux (load_font linux 16) label = Inr (0, 3, 11, 11)"
    by (rule getbbox_linux)
  have k: "getmask linux (load_font linux 16) label = Inr (solid (0, 3, 11, 11))"
    by (rule getmask_linux)
  have b: "textbbox linux ((16 - (11 - 0)) div 2, (16 - (11 - 3)) div 2) label
      (load_font linux 16) = Inr (2, 7, 13, 15)"
    by (simp add: g)
  have c: "create_icon linux 16 =
    Inr \<lparr>mode = asc ''RGB'', width = 16, height = 16,
         getpixel = (\<lambda>(i, j).
           if 0 \<le> i \<and> i < 16 \<and> 0 \<le> j \<and> j < 16
           then Some (blend (solid (0, 3, 11, 11)
                        (i - (16 - (11 - 0)) div 2, j - (16 - (11 - 3)) div 2))
                        background white)
           else None)\<rparr>"
    using g k by (intro create_icon_drawn) simp_all
  have wb: "white \<noteq> background" by (simp add: white_def background_def)
  have "\<exists>img. create_icon linux 16 = Inr img
         \<and> map (\<lambda>j. getpixel img (2, j) = Some white) [0, 1, 2, 3, 4, 5, 6, 7, 8, 9, 10, 11, 12,
              13, 14, 15]
           = [False, False, False, False, False, False, False, True, True, True, True, True,
              True, True, True, False]
         \<and> map (\<lambda>j. getpixel img (2, j) = Some background) [0, 1, 2, 3, 4, 5, 6, 7, 8, 9, 10,
              11, 12, 13, 14, 15]
           = [True, True, True, True, True, True, True, False, False, False, False, False,
              False, False, False, True]"
    using wb wb [symmetric]
    by (simp add: c solid_def blend_0_background blend_255_background)
  with g b show ?thesis by simp
qed

section \<open>The driver\<close>

subsection \<open>Paths and lines\<close>

lemma filename_16: "filename 16 = asc ''dist/icons/icon16.png''"
  by (simp add: filename_def output_dir_def str_int_def str_nat.simps asc_def)

lemma filename_48: "filename 48 = asc ''dist/icons/icon48.png''"
  by (simp add: filename_def output_dir_def str_int_def str_nat.simps asc_def)

lemma filename_128: "filename 128 = asc ''dist/icons/icon128.png''"
  by (simp add: filename_def output_dir_def str_int_def str_nat.simps asc_def)

lemma dirname_filenames:
  "dirname (filename 16) = output_dir" "dirname (filename 48) = output_dir"
  "dirname (filename 128) = output_dir"
  by (simp_all add: filename_16 filename_48 filename_128 dirname_def output_dir_def asc_def)

lemma filenames_distinct:
  "filename 16 \<noteq> filename 48" "filename 16 \<noteq> filename 128" "filename 48 \<noteq> filename 128"
  "filename 16 \<noteq> output_dir" "filename 48 \<noteq> output_dir" "filename 128 \<noteq> output_dir"
  "filename 16 \<noteq> asc ''dist''" "filename 48 \<noteq> asc ''dist''" "filename 128 \<noteq> asc ''dist''"
  "output_dir \<noteq> asc ''dist''" "output_dir \<noteq> []"
  by (simp_all add: filename_16 filename_48 filename_128 output_dir_def asc_def)

lemma output_dir_prefixes: "prefixes_from [] output_dir = [asc ''dist'', output_dir]"
  by (simp add: output_dir_def asc_def)

subsection \<open>The output directory\<close>

text \<open>
  \<open>makedirs\<close> on the output directory: it raises when \<^verbatim>\<open>dist\<close> or \<^verbatim>\<open>dist/icons\<close> is a
  regular file; otherwise both are directories afterwards, and the journal records the
  ones that were missing.
\<close>

lemma makedirs_output_dir:
  "makedirs w output_dir =
     (if asc ''dist'' \<in> dom (files w) then Inl NotADirectoryError
      else if output_dir \<in> dom (files w) then Inl FileExistsError
      else Inr (w\<lparr>dirs := insert output_dir (insert (asc ''dist'') (dirs w)),
                  journal := journal w @ map Mkdir (filter (\<lambda>d. d \<notin> dirs w)
                                                       [asc ''dist'', output_dir])\<rparr>))"
  using filenames_distinct(10)
  by (auto simp add: makedirs_def output_dir_prefixes insert_absorb insert_commute)

lemma save_Inr:
  "save w name img = Inr w' \<Longrightarrow>
   w' = w\<lparr>files := (files w)(name \<mapsto> img), journal := journal w @ [Write name]\<rparr>
   \<and> name \<notin> dirs w"
  by (auto simp add: save_def split: if_splits)

subsection \<open>The loop\<close>

text \<open>A turn of the loop that completes has rendered, saved and confirmed its size.\<close>

lemma render_all_Cons_None:
  assumes "render_all env (sz # rest) w = (w', None)"
  shows "\<exists>img. create_icon env sz = Inr img
    \<and> filename sz \<notin> dirs w
    \<and> render_all env rest
         (w\<lparr>files := (files w)(filename sz \<mapsto> img),
            journal := journal w @ [Write (filename sz)],
            stdout := stdout w @ confirmation (filename sz) @ [10]\<rparr>) = (w', None)"
proof (cases "create_icon env sz")
  case (Inl e)
  with assms show ?thesis by simp
next
  case (Inr img)
  show ?thesis
  proof (cases "save w (filename sz) img")
    case (Inl e)
    with assms Inr show ?thesis by simp
  next
    case (Inr w1)
    have w1: "w1 = w\<lparr>files := (files w)(filename sz \<mapsto> img),
                      journal := journal w @ [Write (filename sz)]\<rparr>"
      and nd: "filename sz \<notin> dirs w"
      using save_Inr [OF Inr] by simp_all
    from assms \<open>create_icon env sz = Inr img\<close> Inr
    have "render_all env rest (print w1 (confirmation (filename sz))) = (w', None)" by simp
    then show ?thesis
      using \<open>create_icon env sz = Inr img\<close> nd by (simp add: w1 print_def)
  qed
qed

text \<open>
  Whatever happens in the loop, what it has written to standard output is a sequence of
  confirmation lines: nothing at all, or a text that starts with the check mark.
\<close>

lemma render_all_stdout:
  "\<exists>d. stdout (fst (render_all env szs w)) = stdout w @ d \<and> (d = [] \<or> hd d = 0x2713)"
proof (induction szs arbitrary: w)
  case Nil
  show ?case by simp
next
  case (Cons sz rest)
  show ?case
  proof (cases "create_icon env sz")
    case (Inl e)
    then show ?thesis by simp
  next
    case (Inr img)
    show ?thesis
    proof (cases "save w (filename sz) img")
      case (Inl e)
      with \<open>create_icon env sz = Inr img\<close> show ?thesis by simp
    next
      case (Inr w1)
      have s1: "stdout w1 = stdout w" using save_Inr [OF Inr] by simp
      obtain d where d: "stdout (fst (render_all env rest (print w1 (confirmation (filename sz)))))
          = stdout (print w1 (confirmation (filename sz))) @ d"
        using Cons.IH by blast
      have "stdout (fst (render_all env (sz # rest) w))
          = stdout w @ (confirmation (filename sz) @ [10] @ d)"
        using \<open>create_icon env sz = Inr img\<close> Inr d by (simp add: print_def s1)
      moreover have "hd (confirmation (filename sz) @ [10] @ d) = 0x2713"
        by (simp add: confirmation_def)
      ultimately show ?thesis by blast
    qed
  qed
qed

text \<open>The loop over the three sizes, when it completes.\<close>

lemma render_all_sizes_None:
  assumes "render_all env sizes w = (w', None)"
  shows "\<exists>i16 i48 i128.
    create_icon env 16 = Inr i16 \<and> create_icon env 48 = Inr i48
    \<and> create_icon env 128 = Inr i128
    \<and> filename 16 \<notin> dirs w \<and> filename 48 \<notin> dirs w \<and> filename 128 \<notin> dirs w
    \<and> w' = w\<lparr>files := (files w)(filename 16 \<mapsto> i16, filename 48 \<mapsto> i48,
                                 filename 128 \<mapsto> i128),
              journal := journal w @ [Write (filename 16), Write (filename 48),
                                      Write (filename 128)],
              stdout := stdout w @ confirmation (filename 16) @ [10]
                          @ confirmation (filename 48) @ [10]
                          @ confirmation (filename 128) @ [10]\<rparr>"
proof -
  from assms have a: "render_all env (16 # 48 # [128]) w = (w', None)"
    by (simp add: sizes_def)
  from render_all_Cons_None [OF a] obtain i16 where
    i16: "create_icon env 16 = Inr i16" and d16: "filename 16 \<notin> dirs w"
    and b: "render_all env (48 # [128])
         (w\<lparr>files := (files w)(filename 16 \<mapsto> i16),
            journal := journal w @ [Write (filename 16)],
            stdout := stdout w @ confirmation (filename 16) @ [10]\<rparr>) = (w', None)"
    by blast
  from render_all_Cons_None [OF b] obtain i48 where
    i48: "create_icon env 48 = Inr i48" and d48: "filename 48 \<notin> dirs w"
    and c: "render_all env [128]
         (w\<lparr>files := (files w)(filename 16 \<mapsto> i16, filename 48 \<mapsto> i48),
            journal := journal w @ [Write (filename 16), Write (filename 48)],
            stdout := stdout w @ confirmation (filename 16) @ [10]
                        @ confirmation (filename 48) @ [10]\<rparr>) = (w', None)"
    by auto
  from render_all_Cons_None [OF c] obtain i128 where
    i128: "create_icon env 128 = Inr i128" and d128: "filename 128 \<notin> dirs w"
    and d: "w' = w\<lparr>files := (files w)(filename 16 \<mapsto> i16, filename 48 \<mapsto> i48,
                                 filename 128 \<mapsto> i128),
              journal := journal w @ [Write (filename 16), Write (filename 48),
                                      Write (filename 128)],
              stdout := stdout w @ confirmation (filename 16) @ [10]
                          @ confirmation (filename 48) @ [10]
                          @ confirmation (filename 128) @ [10]\<rparr>"
    by auto
  from i16 i48 i128 d16 d48 d128 d show ?thesis by blast
qed

subsection \<open>The whole run\<close>

text \<open>
  A run that ends with status 0 had the library, found no regular file where the
  directories go and no directory where the files go, and leaves the world as follows.
\<close>

lemma main_Exit_0:
  assumes "main lib w = (w', Exit 0)"
  shows "\<exists>env i16 i48 i128.
    lib = Some env
    \<and> create_icon env 16 = Inr i16 \<and> create_icon env 48 = Inr i48
    \<and> create_icon env 128 = Inr i128
    \<and> asc ''dist'' \<notin> dom (files w) \<and> output_dir \<notin> dom (files w)
    \<and> filename 16 \<notin> dirs w \<and> filename 48 \<notin> dirs w \<and> filename 128 \<notin> dirs w
    \<and> w' = w\<lparr>dirs := insert output_dir (insert (asc ''dist'') (dirs w)),
              files := (files w)(filename 16 \<mapsto> i16, filename 48 \<mapsto> i48,
                                 filename 128 \<mapsto> i128),
              journal := journal w
                          @ map Mkdir (filter (\<lambda>d. d \<notin> dirs w) [asc ''dist'', output_dir])
                          @ [Write (filename 16), Write (filename 48), Write (filename 128)],
              stdout := stdout w @ confirmation (filename 16) @ [10]
                          @ confirmation (filename 48) @ [10]
                          @ confirmation (filename 128) @ [10]
                          @ all_created @ [10] @ location @ [10]\<rparr>"
proof (cases lib)
  case None
  with assms show ?thesis by (simp add: main_def)
next
  case (Some env)
  show ?thesis
  proof (cases "makedirs w output_dir")
    case (Inl e)
    with assms Some show ?thesis by (simp add: main_def)
  next
    case (Inr w1)
    have nf: "asc ''dist'' \<notin> dom (files w)" "output_dir \<notin> dom (files w)"
      and w1: "w1 = w\<lparr>dirs := insert output_dir (insert (asc ''dist'') (dirs w)),
                  journal := journal w @ map Mkdir (filter (\<lambda>d. d \<notin> dirs w)
                                                       [asc ''dist'', output_dir])\<rparr>"
      using Inr unfolding makedirs_output_dir by (simp_all split: if_splits)
    obtain w2 r where r: "render_all env sizes w1 = (w2, r)"
      by (cases "render_all env sizes w1")
    have rn: "r = None" and w': "w' = print (print w2 all_created) location"
      using assms Some Inr r by (cases r; simp add: main_def)+
    from render_all_sizes_None [OF r [unfolded rn]] obtain i16 i48 i128 where
      i: "create_icon env 16 = Inr i16" "create_icon env 48 = Inr i48"
         "create_icon env 128 = Inr i128"
      and nd: "filename 16 \<notin> dirs w1" "filename 48 \<notin> dirs w1" "filename 128 \<notin> dirs w1"
      and w2: "w2 = w1\<lparr>files := (files w1)(filename 16 \<mapsto> i16, filename 48 \<mapsto> i48,
                                 filename 128 \<mapsto> i128),
              journal := journal w1 @ [Write (filename 16), Write (filename 48),
                                      Write (filename 128)],
              stdout := stdout w1 @ confirmation (filename 16) @ [10]
                          @ confirmation (filename 48) @ [10]
                          @ confirmation (filename 128) @ [10]\<rparr>"
      by blast
    have nd': "filename 16 \<notin> dirs w" "filename 48 \<notin> dirs w" "filename 128 \<notin> dirs w"
      using nd by (simp_all add: w1)
    have "w' = w\<lparr>dirs := insert output_dir (insert (asc ''dist'') (dirs w)),
              files := (files w)(filename 16 \<mapsto> i16, filename 48 \<mapsto> i48,
                                 filename 128 \<mapsto> i128),
              journal := journal w
                          @ map Mkdir (filter (\<lambda>d. d \<notin> dirs w) [asc ''dist'', output_dir])
                          @ [Write (filename 16), Write (filename 48), Write (filename 128)],
              stdout := stdout w @ confirmation (filename 16) @ [10]
                          @ confirmation (filename 48) @ [10]
                          @ confirmation (filename 128) @ [10]
                          @ all_created @ [10] @ location @ [10]\<rparr>"
      by (simp add: w' w2 w1 print_def)
    with Some i nf nd' show ?thesis by blast
  qed
qed

text \<open>
  Conversely, with the library, three icons rendered and nothing in the way the run ends
  with status 0.
\<close>

lemma main_runs:
  assumes "create_icon env 16 = Inr i16" "create_icon env 48 = Inr i48"
    "create_icon env 128 = Inr i128"
    and "asc ''dist'' \<notin> dom (files w)" "output_dir \<notin> dom (files w)"
    and "filename 16 \<notin> dirs w" "filename 48 \<notin> dirs w" "filename 128 \<notin> dirs w"
  shows "snd (main (Some env) w) = Exit 0"
  using assms filenames_distinct
  by (simp add: main_def makedirs_output_dir sizes_def save_def print_def dirname_filenames)

text \<open>The first uncaught exception of a rendering ends the run.\<close>

lemma main_first_icon_raises:
  assumes "create_icon env 16 = Inl e"
    and "asc ''dist'' \<notin> dom (files w)" "output_dir \<notin> dom (files w)"
  shows "main (Some env) w =
    (w\<lparr>dirs := insert output_dir (insert (asc ''dist'') (dirs w)),
       journal := journal w @ map Mkdir (filter (\<lambda>d. d \<notin> dirs w)
                                            [asc ''dist'', output_dir])\<rparr>, Uncaught e)"
  using assms by (simp add: main_def makedirs_output_dir sizes_def)

lemma create_icon_mac: "0 \<le> sz \<Longrightarrow> \<exists>img. create_icon mac sz = Inr img"
  using create_icon_drawn [of sz mac, OF _ getbbox_mac_label getmask_mac_label] by simp

lemma main_mac_fresh: "snd (main (Some mac) fresh) = Exit 0"
proof -
  obtain i16 i48 i128 where i: "create_icon mac 16 = Inr i16" "create_icon mac 48 = Inr i48"
    "create_icon mac 128 = Inr i128"
    using create_icon_mac [of 16] create_icon_mac [of 48] create_icon_mac [of 128] by auto
  show ?thesis
    by (rule main_runs [OF i]) (simp_all add: fresh_def)
qed

text \<open>The text of a completed run falls into six lines, the fourth of them empty.\<close>

lemma success_lines:
  "splitlines (confirmation (filename 16) @ [10] @ confirmation (filename 48) @ [10]
      @ confirmation (filename 128) @ [10] @ all_created @ [10] @ location @ [10])
   = [confirmation (filename 16), confirmation (filename 48), confirmation (filename 128),
      [], tl all_created, location]"
  by (simp add: splitlines_def confirmation_def filename_16 filename_48 filename_128
      all_created_def location_def output_dir_def asc_def)

text \<open>
  C2, as the code has it. A run that ends with status 0 has written six lines to
  standard output: the confirmation lines for \<^verbatim>\<open>dist/icons/icon16.png\<close>,
  \<^verbatim>\<open>dist/icons/icon48.png\<close> and \<^verbatim>\<open>dist/icons/icon128.png\<close> in this order, an empty
  line, the line saying that all icons were created, and a last line that names the
  output directory.
\<close>

theorem run_prints_six_lines:
  assumes "main lib w = (w', Exit 0)"
  shows "\<exists>out. stdout w' = stdout w @ out
    \<and> splitlines out =
        [confirmation (asc ''dist/icons/icon16.png''),
         confirmation (asc ''dist/icons/icon48.png''),
         confirmation (asc ''dist/icons/icon128.png''),
         [], tl all_created, location]
    \<and> length (splitlines out) = 6
    \<and> location = [0xC704, 0xCE58] @ asc '': dist/icons/''"
proof -
  from main_Exit_0 [OF assms]
  have "stdout w' = stdout w @ (confirmation (filename 16) @ [10]
          @ confirmation (filename 48) @ [10] @ confirmation (filename 128) @ [10]
          @ all_created @ [10] @ location @ [10])"
    by auto
  moreover have "location = [0xC704, 0xCE58] @ asc '': dist/icons/''"
    by (simp add: location_def output_dir_def asc_def)
  ultimately show ?thesis
    using success_lines by (simp add: filename_16 filename_48 filename_128)
qed

theorem run_prints_six_lines_witness:
  "main (Some mac) fresh = (fst (main (Some mac) fresh), Exit 0)
   \<and> splitlines (stdout (fst (main (Some mac) fresh))) =
        [confirmation (asc ''dist/icons/icon16.png''),
         confirmation (asc ''dist/icons/icon48.png''),
         confirmation (asc ''dist/icons/icon128.png''),
         [], tl all_created, location]"
proof -
  have m: "main (Some mac) fresh = (fst (main (Some mac) fresh), Exit 0)"
    using main_mac_fresh by (simp add: prod_eq_iff)
  have "stdout fresh = []" by (simp add: fresh_def)
  with run_prints_six_lines [OF m] m show ?thesis by auto
qed

text \<open>
  On \<open>mac\<close>, started in an empty working directory, the run ends with status 0, and
  its output has six lines, not four.
\<close>

theorem run_prints_six_lines_counterexample:
  "snd (main (Some mac) fresh) = Exit 0
   \<and> length (splitlines (stdout (fst (main (Some mac) fresh)))) = 6
   \<and> length (splitlines (stdout (fst (main (Some mac) fresh)))) \<noteq> 4"
proof -
  have m: "main (Some mac) fresh = (fst (main (Some mac) fresh), Exit 0)"
    using main_mac_fresh by (simp add: prod_eq_iff)
  from main_Exit_0 [OF m]
  have "stdout (fst (main (Some mac) fresh)) = confirmation (filename 16) @ [10]
          @ confirmation (filename 48) @ [10] @ confirmation (filename 128) @ [10]
          @ all_created @ [10] @ location @ [10]"
    by (auto simp add: fresh_def)
  then show ?thesis
    using main_mac_fresh success_lines by simp
qed

subsection \<open>The import guard\<close>

text \<open>
  With the library present, whatever the run writes to standard output is nothing, or
  starts with a check mark, or starts with the newline of the closing message.
\<close>

lemma main_Some_stdout:
  "\<exists>d. stdout (fst (main (Some env) w)) = stdout w @ d
     \<and> (d = [] \<or> hd d = 0x2713 \<or> hd d = 10)"
proof (cases "makedirs w output_dir")
  case (Inl e)
  then show ?thesis by (simp add: main_def)
next
  case (Inr w1)
  have s1: "stdout w1 = stdout w"
    using Inr unfolding makedirs_output_dir by (auto split: if_splits)
  obtain d where d: "stdout (fst (render_all env sizes w1)) = stdout w1 @ d"
    and hd: "d = [] \<or> hd d = 0x2713"
    using render_all_stdout [of env sizes w1] by blast
  obtain w2 r where r: "render_all env sizes w1 = (w2, r)"
    by (cases "render_all env sizes w1")
  have w2: "stdout w2 = stdout w @ d" using d r s1 by simp
  show ?thesis
  proof (cases r)
    case (Some e)
    then have "stdout (fst (main (Some env) w)) = stdout w @ d"
      using Inr r w2 by (simp add: main_def)
    with hd show ?thesis by blast
  next
    case None
    then have "stdout (fst (main (Some env) w))
        = stdout w @ (d @ all_created @ [10] @ location @ [10])"
      using Inr r w2 by (simp add: main_def print_def)
    moreover have "hd (d @ all_created @ [10] @ location @ [10]) = 0x2713
        \<or> hd (d @ all_created @ [10] @ location @ [10]) = 10"
      using hd by (cases d) (simp_all add: all_created_def)
    ultimately show ?thesis by blast
  qed
qed

lemma guard_lines:
  "splitlines (need_pillow @ [10] @ install_hint @ [10]) = [need_pillow, install_hint]"
  by (simp add: splitlines_def need_pillow_def install_hint_def asc_def)

text \<open>
  C4. When the library cannot be imported the program prints two lines, the message that
  Pillow is required and the installation hint, and exits with status 1; no directory
  is created and no file is written. And only then: with the library present the output
  of the program is never these two lines.
\<close>

theorem import_guard:
  "main None w = (w\<lparr>stdout := stdout w @ need_pillow @ [10] @ install_hint @ [10]\<rparr>, Exit 1)
   \<and> splitlines (need_pillow @ [10] @ install_hint @ [10]) = [need_pillow, install_hint]
   \<and> exit_status (snd (main None w)) = 1
   \<and> dirs (fst (main None w)) = dirs w \<and> files (fst (main None w)) = files w
   \<and> journal (fst (main None w)) = journal w
   \<and> ((stdout (fst (main lib w)) = stdout w @ need_pillow @ [10] @ install_hint @ [10])
        = (lib = None))"
proof -
  have none: "main None w
      = (w\<lparr>stdout := stdout w @ need_pillow @ [10] @ install_hint @ [10]\<rparr>, Exit 1)"
    by (simp add: main_def print_def)
  have iff: "(stdout (fst (main lib w)) = stdout w @ need_pillow @ [10] @ install_hint @ [10])
        = (lib = None)"
  proof (cases lib)
    case None
    then show ?thesis by (simp add: none)
  next
    case (Some env)
    obtain d where d: "stdout (fst (main (Some env) w)) = stdout w @ d"
      and hd: "d = [] \<or> hd d = 0x2713 \<or> hd d = 10"
      using main_Some_stdout [of env w] by blast
    have "hd (need_pillow @ [10] @ install_hint @ [10]) = 80"
      "need_pillow @ [10] @ install_hint @ [10] \<noteq> []"
      by (simp_all add: need_pillow_def asc_def)
    with hd have "d \<noteq> need_pillow @ [10] @ install_hint @ [10]" by auto
    with d Some show ?thesis by simp
  qed
  have rest: "exit_status (snd (main None w)) = 1
    \<and> dirs (fst (main None w)) = dirs w \<and> files (fst (main None w)) = files w
    \<and> journal (fst (main None w)) = journal w"
    by (simp add: none)
  show ?thesis
    using none iff guard_lines rest by blast
qed

theorem import_guard_witness:
  "main None fresh = (\<lparr>dirs = {}, files = Map.empty,
        stdout = need_pillow @ [10] @ install_hint @ [10], journal = []\<rparr>, Exit 1)
   \<and> stdout (fst (main (Some mac) fresh)) \<noteq> need_pillow @ [10] @ install_hint @ [10]"
proof -
  have a: "main None fresh
      = (fresh\<lparr>stdout := stdout fresh @ need_pillow @ [10] @ install_hint @ [10]\<rparr>, Exit 1)"
    using import_guard [of fresh None] by blast
  have "(stdout (fst (main (Some mac) fresh))
          = stdout fresh @ need_pillow @ [10] @ install_hint @ [10]) = (Some mac = None)"
    using import_guard [of fresh "Some mac"] by blast
  then have b: "stdout (fst (main (Some mac) fresh))
      \<noteq> stdout fresh @ need_pillow @ [10] @ install_hint @ [10]"
    by simp
  show ?thesis
    using a b by (simp add: fresh_def)
qed

subsection \<open>The files written\<close>

lemma asc_append: "asc (a @ b) = asc a @ asc b"
  by (simp add: asc_def)

text \<open>
  C7. A run that ends with status 0 has first made sure that \<^verbatim>\<open>dist/icons\<close> exists,
  creating it and \<^verbatim>\<open>dist\<close> where they were missing and leaving them alone where they
  were there, and has then written three files and no other: the icons of size 16, 48
  and 128, in this order, at \<^verbatim>\<open>dist/icons/icon16.png\<close>, \<^verbatim>\<open>dist/icons/icon48.png\<close>
  and \<^verbatim>\<open>dist/icons/icon128.png\<close>. The path of an icon depends on its size alone.
\<close>

theorem run_writes_three_files:
  assumes "main lib w = (w', Exit 0)"
  shows "\<exists>env i16 i48 i128.
    lib = Some env
    \<and> create_icon env 16 = Inr i16 \<and> create_icon env 48 = Inr i48
    \<and> create_icon env 128 = Inr i128
    \<and> files w' = (files w)(asc ''dist/icons/icon16.png'' \<mapsto> i16,
                             asc ''dist/icons/icon48.png'' \<mapsto> i48,
                             asc ''dist/icons/icon128.png'' \<mapsto> i128)
    \<and> dirs w' = insert (asc ''dist/icons'') (insert (asc ''dist'') (dirs w))
    \<and> journal w' = journal w
          @ map Mkdir (filter (\<lambda>d. d \<notin> dirs w) [asc ''dist'', asc ''dist/icons''])
          @ [Write (asc ''dist/icons/icon16.png''), Write (asc ''dist/icons/icon48.png''),
             Write (asc ''dist/icons/icon128.png'')]
    \<and> filename sz = asc ''dist/icons/icon'' @ str_int sz @ asc ''.png''"
proof -
  from main_Exit_0 [OF assms] obtain env i16 i48 i128 where
    "lib = Some env" "create_icon env 16 = Inr i16" "create_icon env 48 = Inr i48"
    "create_icon env 128 = Inr i128"
    and w': "w' = w\<lparr>dirs := insert output_dir (insert (asc ''dist'') (dirs w)),
              files := (files w)(filename 16 \<mapsto> i16, filename 48 \<mapsto> i48,
                                 filename 128 \<mapsto> i128),
              journal := journal w
                          @ map Mkdir (filter (\<lambda>d. d \<notin> dirs w) [asc ''dist'', output_dir])
                          @ [Write (filename 16), Write (filename 48), Write (filename 128)],
              stdout := stdout w @ confirmation (filename 16) @ [10]
                          @ confirmation (filename 48) @ [10]
                          @ confirmation (filename 128) @ [10]
                          @ all_created @ [10] @ location @ [10]\<rparr>"
    by blast
  moreover have "files w' = (files w)(asc ''dist/icons/icon16.png'' \<mapsto> i16,
                             asc ''dist/icons/icon48.png'' \<mapsto> i48,
                             asc ''dist/icons/icon128.png'' \<mapsto> i128)"
    by (simp add: w' filename_16 filename_48 filename_128)
  moreover have "dirs w' = insert (asc ''dist/icons'') (insert (asc ''dist'') (dirs w))"
    by (simp add: w' output_dir_def)
  moreover have "journal w' = journal w
          @ map Mkdir (filter (\<lambda>d. d \<notin> dirs w) [asc ''dist'', asc ''dist/icons''])
          @ [Write (asc ''dist/icons/icon16.png''), Write (asc ''dist/icons/icon48.png''),
             Write (asc ''dist/icons/icon128.png'')]"
    by (simp add: w' filename_16 filename_48 filename_128 output_dir_def)
  moreover have "filename sz = asc ''dist/icons/icon'' @ str_int sz @ asc ''.png''"
    by (simp add: filename_def output_dir_def asc_def)
  ultimately show ?thesis by blast
qed

text \<open>
  Started in an empty working directory, and started where both directories exist
  already: the same three files, and in the journal the two directories only in the first
  case.
\<close>

theorem run_writes_three_files_witness:
  "main (Some mac) fresh = (fst (main (Some mac) fresh), Exit 0)
   \<and> dom (files (fst (main (Some mac) fresh))) =
        {asc ''dist/icons/icon16.png'', asc ''dist/icons/icon48.png'',
         asc ''dist/icons/icon128.png''}
   \<and> journal (fst (main (Some mac) fresh)) =
        [Mkdir (asc ''dist''), Mkdir (asc ''dist/icons''),
         Write (asc ''dist/icons/icon16.png''), Write (asc ''dist/icons/icon48.png''),
         Write (asc ''dist/icons/icon128.png'')]
   \<and> journal (fst (main (Some mac) (fresh\<lparr>dirs := {asc ''dist'', asc ''dist/icons''}\<rparr>))) =
        [Write (asc ''dist/icons/icon16.png''), Write (asc ''dist/icons/icon48.png''),
         Write (asc ''dist/icons/icon128.png'')]"
proof -
  define old where "old = fresh\<lparr>dirs := {asc ''dist'', asc ''dist/icons''}\<rparr>"
  have m: "main (Some mac) fresh = (fst (main (Some mac) fresh), Exit 0)"
    using main_mac_fresh by (simp add: prod_eq_iff)
  obtain i16 i48 i128 where i: "create_icon mac 16 = Inr i16" "create_icon mac 48 = Inr i48"
    "create_icon mac 128 = Inr i128"
    using create_icon_mac [of 16] create_icon_mac [of 48] create_icon_mac [of 128] by auto
  have "snd (main (Some mac) old) = Exit 0"
    by (rule main_runs [OF i])
      (simp_all add: old_def fresh_def filename_16 filename_48 filename_128 asc_def)
  then have n: "main (Some mac) old = (fst (main (Some mac) old), Exit 0)"
    by (simp add: prod_eq_iff)
  from run_writes_three_files [OF m, of 16] obtain i16 i48 i128 where
    f: "files (fst (main (Some mac) fresh)) =
          (files fresh)(asc ''dist/icons/icon16.png'' \<mapsto> i16,
                        asc ''dist/icons/icon48.png'' \<mapsto> i48,
                        asc ''dist/icons/icon128.png'' \<mapsto> i128)"
    and j: "journal (fst (main (Some mac) fresh)) = journal fresh
          @ map Mkdir (filter (\<lambda>d. d \<notin> dirs fresh) [asc ''dist'', asc ''dist/icons''])
          @ [Write (asc ''dist/icons/icon16.png''), Write (asc ''dist/icons/icon48.png''),
             Write (asc ''dist/icons/icon128.png'')]"
    by auto
  from run_writes_three_files [OF n, of 16] have
    k: "journal (fst (main (Some mac) old)) = journal old
          @ map Mkdir (filter (\<lambda>d. d \<notin> dirs old) [asc ''dist'', asc ''dist/icons''])
          @ [Write (asc ''dist/icons/icon16.png''), Write (asc ''dist/icons/icon48.png''),
             Write (asc ''dist/icons/icon128.png'')]"
    by auto
  have "dom (files (fst (main (Some mac) fresh))) =
        {asc ''dist/icons/icon16.png'', asc ''dist/icons/icon48.png'',
         asc ''dist/icons/icon128.png''}"
    unfolding f by (auto simp add: fresh_def)
  moreover have "journal (fst (main (Some mac) fresh)) =
        [Mkdir (asc ''dist''), Mkdir (asc ''dist/icons''),
         Write (asc ''dist/icons/icon16.png''), Write (asc ''dist/icons/icon48.png''),
         Write (asc ''dist/icons/icon128.png'')]"
    unfolding j by (simp add: fresh_def)
  moreover have "journal (fst (main (Some mac) old)) =
        [Write (asc ''dist/icons/icon16.png''), Write (asc ''dist/icons/icon48.png''),
         Write (asc ''dist/icons/icon128.png'')]"
    unfolding k by (simp add: old_def fresh_def)
  ultimately show ?thesis
    using m unfolding old_def by blast
qed

subsection \<open>The fallback font\<close>

lemma create_icon_linux_bitmap: "create_icon linux_bitmap 16 = Inl UnicodeEncodeError"
proof -
  have f: "load_font linux_bitmap 16 = 0"
    by (simp add: load_font_def linux_bitmap_def)
  have "getbbox linux_bitmap 0 label = Inl UnicodeEncodeError"
    by (simp add: linux_bitmap_def label_def)
  then show ?thesis
    using create_icon_unmeasured [of 16 linux_bitmap UnicodeEncodeError] by (simp add: f)
qed

text \<open>
  C3, at an input where the fallback does not save the run. On \<open>linux_bitmap\<close> the
  load of the system font raises and the \<^verbatim>\<open>except:\<close> branch takes the default
  font, which cannot encode the Hangul syllable of the label: measuring the label raises
  \<^verbatim>\<open>UnicodeEncodeError\<close> outside the \<^verbatim>\<open>try\<close>, \<open>create_icon\<close> returns no image, and
  the run ends with an uncaught exception, status 1, no file written and nothing
  printed. The same installation with the system font in place renders the icon: the
  failure is due to the missing font alone.
\<close>

theorem fallback_font_raises:
  "truetype linux_bitmap arial (font_size 16) = Inl OSError
   \<and> load_font linux_bitmap 16 = load_default linux_bitmap
   \<and> getbbox linux_bitmap (load_default linux_bitmap) label = Inl UnicodeEncodeError
   \<and> create_icon linux_bitmap 16 = Inl UnicodeEncodeError
   \<and> snd (main (Some linux_bitmap) fresh) = Uncaught UnicodeEncodeError
   \<and> exit_status (snd (main (Some linux_bitmap) fresh)) = 1
   \<and> files (fst (main (Some linux_bitmap) fresh)) = Map.empty
   \<and> stdout (fst (main (Some linux_bitmap) fresh)) = []
   \<and> (\<exists>img. create_icon (linux_bitmap\<lparr>truetype := \<lambda>path pt. Inr pt\<rparr>) 16 = Inr img
         \<and> width img = 16 \<and> height img = 16)"
proof -
  have t: "truetype linux_bitmap arial (font_size 16) = Inl OSError"
    by (simp add: linux_bitmap_def)
  have f: "load_font linux_bitmap 16 = load_default linux_bitmap"
    using t by (rule load_font_fallback)
  have g: "getbbox linux_bitmap (load_default linux_bitmap) label = Inl UnicodeEncodeError"
    by (simp add: linux_bitmap_def label_def)
  have m: "main (Some linux_bitmap) fresh =
    (fresh\<lparr>dirs := insert output_dir (insert (asc ''dist'') (dirs fresh)),
       journal := journal fresh @ map Mkdir (filter (\<lambda>d. d \<notin> dirs fresh)
                                            [asc ''dist'', output_dir])\<rparr>,
     Uncaught UnicodeEncodeError)"
    by (rule main_first_icon_raises [OF create_icon_linux_bitmap]) (simp_all add: fresh_def)
  define sys where "sys = linux_bitmap\<lparr>truetype := \<lambda>path pt. Inr pt\<rparr>"
  have fs: "load_font sys 16 = 6"
    by (simp add: load_font_def sys_def font_size_16)
  have "create_icon sys 16 =
    Inr \<lparr>mode = asc ''RGB'', width = 16, height = 16,
         getpixel = (\<lambda>(i, j).
           if 0 \<le> i \<and> i < 16 \<and> 0 \<le> j \<and> j < 16
           then Some (blend (solid (0, 3, 11, 11)
                        (i - (16 - (11 - 0)) div 2, j - (16 - (11 - 3)) div 2))
                        background white)
           else None)\<rparr>"
    by (rule create_icon_drawn) (simp_all add: fs, simp_all add: sys_def linux_bitmap_def)
  then have s: "\<exists>img. create_icon (linux_bitmap\<lparr>truetype := \<lambda>path pt. Inr pt\<rparr>) 16 = Inr img
         \<and> width img = 16 \<and> height img = 16"
    unfolding sys_def by simp
  have r: "snd (main (Some linux_bitmap) fresh) = Uncaught UnicodeEncodeError"
    "exit_status (snd (main (Some linux_bitmap) fresh)) = 1"
    "files (fst (main (Some linux_bitmap) fresh)) = Map.empty"
    "stdout (fst (main (Some linux_bitmap) fresh)) = []"
    unfolding m by (simp_all add: fresh_def)
  from t f g create_icon_linux_bitmap r s show ?thesis by blast
qed

end
